theory Spec2Isabelle
  imports Main "HOL-Library.Word"
begin

unbundle bit_operations_syntax

section \<open>Failures\<close>

text \<open>
  The translator in \<^verbatim>\<open>PrestoToVeloxQueryPlan.cpp\<close> aborts a call by throwing. The macro
  that throws decides the kind of the failure:
  \<^item> \<^verbatim>\<open>VELOX_UNSUPPORTED\<close> (error code UNSUPPORTED) is \<open>UnsupportedConstruct\<close>;
  \<^item> \<^verbatim>\<open>VELOX_CHECK\<close>, \<^verbatim>\<open>VELOX_CHECK_EQ\<close>, \<^verbatim>\<open>VELOX_CHECK_NE\<close>, \<^verbatim>\<open>VELOX_CHECK_NULL\<close>,
    \<^verbatim>\<open>VELOX_CHECK_NOT_NULL\<close>, \<^verbatim>\<open>VELOX_FAIL\<close> and \<^verbatim>\<open>VELOX_UNREACHABLE\<close> (runtime errors, a
    broken contract) are \<open>InvariantViolation\<close>;
  \<^item> \<^verbatim>\<open>VELOX_USER_CHECK\<close> (a user error, INVALID_ARGUMENT) is \<open>UserError\<close>.
  Each failure carries the static text of the message. A read through a null pointer or
  past the end of a vector has no defined behaviour in C++; the model stops there with
  \<open>UndefinedBehavior\<close>, so that such a path is never mistaken for a result.
\<close>

datatype error =
    UnsupportedConstruct string
  | InvariantViolation string
  | UserError string
  | UndefinedBehavior string

section \<open>The internal (engine) data model\<close>

subsection \<open>Types, constants and typed expressions\<close>

datatype TypeKind =
    BOOLEAN | TINYINT | SMALLINT | INTEGER | BIGINT | REAL | DOUBLE | VARCHAR | VARBINARY
  | TIMESTAMP | DATE | HUGEINT | ARRAY | MAP | ROW | UNKNOWN | FUNCTION | OPAQUE | INVALID

datatype VType =
    ScalarType TypeKind
  | ArrayType VType
  | MapType VType VType
  | RowType "string list" "VType list"

fun kind :: "VType \<Rightarrow> TypeKind" where
  "kind (ScalarType k) = k"
| "kind (ArrayType _) = ARRAY"
| "kind (MapType _ _) = MAP"
| "kind (RowType _ _) = ROW"

definition isBigint :: "VType \<Rightarrow> bool" where
  "isBigint t = (kind t = BIGINT)"

fun names :: "VType \<Rightarrow> string list" where
  "names (RowType ns _) = ns"
| "names _ = []"

fun children :: "VType \<Rightarrow> VType list" where
  "children (RowType _ ts) = ts"
| "children (ArrayType t) = [t]"
| "children (MapType k v) = [k, v]"
| "children (ScalarType _) = []"

type_synonym int64 = "64 word"
type_synonym int32 = "32 word"

definition int64_min :: int64 where
  "int64_min = - (2 ^ 63)"

definition int64_max :: int64 where
  "int64_max = 2 ^ 63 - 1"

definition int32_min :: int32 where
  "int32_min = - (2 ^ 31)"

definition int32_max :: int32 where
  "int32_max = 2 ^ 31 - 1"

text \<open>
  A constant of the engine (\<^verbatim>\<open>velox::variant\<close>). Doubles and floats are kept as their
  bit patterns: the translator moves them and never computes with them.
\<close>

datatype variant =
    NullVariant TypeKind
  | BooleanVariant bool
  | TinyintVariant "8 word"
  | SmallintVariant "16 word"
  | IntegerVariant int32
  | BigintVariant int64
  | RealVariant "32 word"
  | DoubleVariant "64 word"
  | VarcharVariant string
  | DateVariant int32

datatype TypedExpr =
    FieldAccessTypedExpr VType string
  | ConstantTypedExpr VType variant
  | CallTypedExpr VType "TypedExpr list" string
  | OtherTypedExpr VType string

fun exprType :: "TypedExpr \<Rightarrow> VType" where
  "exprType (FieldAccessTypedExpr t _) = t"
| "exprType (ConstantTypedExpr t _) = t"
| "exprType (CallTypedExpr t _ _) = t"
| "exprType (OtherTypedExpr t _) = t"

subsection \<open>Filters\<close>

text \<open>
  The filter objects the compiler builds. \<open>BigintValues\<close> and \<open>NegatedBigintValues\<close>
  stand for what \<^verbatim>\<open>common::createBigintValues\<close> and
  \<^verbatim>\<open>common::createNegatedBigintValues\<close> return for a list of values.
\<close>

record BigintRange =
  lower :: int64
  upper :: int64
  nullAllowed :: bool

definition isSingleValue :: "BigintRange \<Rightarrow> bool" where
  "isSingleValue r = (upper r = lower r)"

record BytesRange =
  bytesLower :: string
  isLowerUnbounded :: bool
  lowerExclusive :: bool
  bytesUpper :: string
  isUpperUnbounded :: bool
  upperExclusive :: bool
  bytesNullAllowed :: bool

definition bytesIsSingleValue :: "BytesRange \<Rightarrow> bool" where
  "bytesIsSingleValue r =
     (\<not> lowerExclusive r \<and> \<not> upperExclusive r \<and> \<not> isLowerUnbounded r \<and>
      \<not> isUpperUnbounded r \<and> bytesLower r = bytesUpper r)"

datatype Filter =
    AlwaysFalse
  | IsNull
  | IsNotNull
  | BoolValue bool bool
  | BigintRangeFilter BigintRange
  | BigintValues "int64 list" bool
  | NegatedBigintValues "int64 list" bool
  | NegatedBigintRange int64 int64 bool
  | BigintMultiRange "BigintRange list" bool
  | DoubleRange "64 word" bool bool "64 word" bool bool bool
  | FloatRange "32 word" bool bool "32 word" bool bool bool
  | BytesRangeFilter BytesRange
  | BytesValues "string list" bool
  | NegatedBytesValues "string list" bool
  | NegatedBytesRange string bool bool string bool bool bool
  | MultiRange "Filter list" bool bool

definition createBigintValues :: "int64 list \<Rightarrow> bool \<Rightarrow> Filter" where
  "createBigintValues vs na = BigintValues vs na"

definition createNegatedBigintValues :: "int64 list \<Rightarrow> bool \<Rightarrow> Filter" where
  "createNegatedBigintValues vs na = NegatedBigintValues vs na"

section \<open>The wire data model: value domains\<close>

datatype Bound = BELOW | EXACTLY | ABOVE

text \<open>
  \<open>'b\<close> is the serialized block of a literal; only the expression converter can read it.
  \<open>valueBlock\<close> is a shared pointer: \<open>None\<close> is the null pointer.
\<close>

record 'b Marker =
  valueBlock :: "'b option"
  bound :: Bound

record 'b Range =
  low :: "'b Marker"
  high :: "'b Marker"

datatype 'b ValueSet =
    SortedRangeSet string "'b Range list"
  | EquatableValueSet string "'b list"
  | AllOrNoneValueSet string bool
  | OtherValueSet string

record 'b Domain =
  domainValues :: "'b ValueSet"
  domainNullAllowed :: bool

section \<open>The wire data model: scalar expressions\<close>

datatype VariableReferenceExpression =
  VariableReferenceExpression (varName: string) (varType: string)

datatype FunctionKind = SCALAR | AGGREGATE | WINDOW

record Signature =
  signatureName :: string
  signatureKind :: FunctionKind

datatype FunctionHandle =
    BuiltInFunctionHandle Signature
  | OtherFunctionHandle string

datatype 'b RowExpression =
    VariableReference VariableReferenceExpression
  | CallExpression string FunctionHandle string "'b RowExpression list"
  | ConstantExpression 'b string
  | SpecialFormExpression string string "'b RowExpression list"
  | OtherRowExpression string

section \<open>External collaborators\<close>

text \<open>
  The expression converter (\<^verbatim>\<open>VeloxExprConverter\<close>) and the type-signature parser
  (\<^verbatim>\<open>TypeSignatureTypeConverter::parse\<close>, a static function in the source, carried here
  with the converter) are not part of the translated file; they are parameters. Each may
  throw. \<open>toVeloxExprVariable\<close> is the overload of \<^verbatim>\<open>toVeloxExpr\<close> for a variable
  reference, whose result is a field access. \<open>tpchFromTableName\<close> is the benchmark
  connector's \<^verbatim>\<open>tpch::fromTableName\<close>, carried here as well.
\<close>

record 'b VeloxExprConverter =
  typeParser :: "string \<Rightarrow> error + VType"
  getConstantValue :: "VType \<Rightarrow> 'b \<Rightarrow> error + variant"
  toVeloxExpr :: "'b RowExpression \<Rightarrow> error + TypedExpr"
  toVeloxExprVariable :: "VariableReferenceExpression \<Rightarrow> error + TypedExpr"
  tpchFromTableName :: "string \<Rightarrow> error + string"

definition stringToType :: "'b VeloxExprConverter \<Rightarrow> string \<Rightarrow> error + VType" where
  "stringToType x typeString = typeParser x typeString"

text \<open>
  \<^verbatim>\<open>variant::value<T>()\<close> checks the kind of the constant and throws otherwise;
  \<^verbatim>\<open>VariantConverter::convert<BIGINT>\<close> widens the integer kinds, which are the kinds
  the converter returns for an integer-typed column.
\<close>

fun variantToInt64 :: "variant \<Rightarrow> error + int64" where
  "variantToInt64 (TinyintVariant v) = Inr (scast v)"
| "variantToInt64 (SmallintVariant v) = Inr (scast v)"
| "variantToInt64 (IntegerVariant v) = Inr (scast v)"
| "variantToInt64 (BigintVariant v) = Inr v"
| "variantToInt64 _ = Inl (InvariantViolation ''variant cannot be read as BIGINT'')"

fun variantToDays :: "variant \<Rightarrow> error + int64" where
  "variantToDays (DateVariant d) = Inr (scast d)"
| "variantToDays _ = Inl (InvariantViolation ''variant is not a DATE'')"

fun variantToDouble :: "variant \<Rightarrow> error + 64 word" where
  "variantToDouble (DoubleVariant d) = Inr d"
| "variantToDouble _ = Inl (InvariantViolation ''variant is not a DOUBLE'')"

fun variantToFloat :: "variant \<Rightarrow> error + 32 word" where
  "variantToFloat (RealVariant d) = Inr d"
| "variantToFloat _ = Inl (InvariantViolation ''variant is not a REAL'')"

fun variantToString :: "variant \<Rightarrow> error + string" where
  "variantToString (VarcharVariant s) = Inr s"
| "variantToString _ = Inl (InvariantViolation ''variant is not a VARCHAR'')"

fun variantToBool :: "variant \<Rightarrow> error + bool" where
  "variantToBool (BooleanVariant v) = Inr v"
| "variantToBool _ = Inl (InvariantViolation ''variant is not a BOOLEAN'')"

section \<open>Filter compiler\<close>

subsection \<open>Reading the literal of a bound\<close>

definition readBlock :: "'b VeloxExprConverter \<Rightarrow> VType \<Rightarrow> 'b option \<Rightarrow> error + variant" where
  "readBlock x t block =
     (case block of
        None \<Rightarrow> Inl (UndefinedBehavior ''dereference of a null valueBlock'')
      | Some b \<Rightarrow> getConstantValue x t b)"

definition toInt64 :: "'b option \<Rightarrow> 'b VeloxExprConverter \<Rightarrow> VType \<Rightarrow> error + int64" where
  "toInt64 block x t =
     (case readBlock x t block of Inl e \<Rightarrow> Inl e | Inr v \<Rightarrow> variantToInt64 v)"

definition dateToInt64 :: "'b option \<Rightarrow> 'b VeloxExprConverter \<Rightarrow> VType \<Rightarrow> error + int64" where
  "dateToInt64 block x t =
     (case readBlock x t block of Inl e \<Rightarrow> Inl e | Inr v \<Rightarrow> variantToDays v)"

definition toDouble :: "'b option \<Rightarrow> 'b VeloxExprConverter \<Rightarrow> VType \<Rightarrow> error + 64 word" where
  "toDouble block x t =
     (case readBlock x t block of Inl e \<Rightarrow> Inl e | Inr v \<Rightarrow> variantToDouble v)"

definition toFloat :: "'b option \<Rightarrow> 'b VeloxExprConverter \<Rightarrow> VType \<Rightarrow> error + 32 word" where
  "toFloat block x t =
     (case readBlock x t block of Inl e \<Rightarrow> Inl e | Inr v \<Rightarrow> variantToFloat v)"

definition toString :: "'b option \<Rightarrow> 'b VeloxExprConverter \<Rightarrow> VType \<Rightarrow> error + string" where
  "toString block x t =
     (case readBlock x t block of Inl e \<Rightarrow> Inl e | Inr v \<Rightarrow> variantToString v)"

definition toBoolean :: "'b option \<Rightarrow> 'b VeloxExprConverter \<Rightarrow> VType \<Rightarrow> error + bool" where
  "toBoolean block x t =
     (case readBlock x t block of Inl e \<Rightarrow> Inl e | Inr v \<Rightarrow> variantToBool v)"

subsection \<open>One range\<close>

text \<open>
  \<^verbatim>\<open>low++\<close> and \<^verbatim>\<open>high--\<close> are on \<^verbatim>\<open>int64_t\<close>; at the extremes the signed overflow
  is written here as the wrap-around of the machine.
\<close>

definition bigintRangeToFilter ::
  "'b Range \<Rightarrow> bool \<Rightarrow> 'b VeloxExprConverter \<Rightarrow> VType \<Rightarrow> error + BigintRange" where
  "bigintRangeToFilter rng na x t =
     (let lowUnbounded = (valueBlock (low rng) = None) in
      case (if lowUnbounded then Inr int64_min else toInt64 (valueBlock (low rng)) x t) of
        Inl e \<Rightarrow> Inl e
      | Inr lo0 \<Rightarrow>
          let lo = (if \<not> lowUnbounded \<and> bound (low rng) = ABOVE then lo0 + 1 else lo0);
              highUnbounded = (valueBlock (high rng) = None) in
          case (if highUnbounded then Inr int64_max else toInt64 (valueBlock (high rng)) x t) of
            Inl e \<Rightarrow> Inl e
          | Inr hi0 \<Rightarrow>
              let hi = (if \<not> highUnbounded \<and> bound (high rng) = BELOW then hi0 - 1 else hi0)
              in Inr \<lparr>lower = lo, upper = hi, nullAllowed = na\<rparr>)"

definition dateRangeToFilter ::
  "'b Range \<Rightarrow> bool \<Rightarrow> 'b VeloxExprConverter \<Rightarrow> VType \<Rightarrow> error + BigintRange" where
  "dateRangeToFilter rng na x t =
     (let lowUnbounded = (valueBlock (low rng) = None) in
      case (if lowUnbounded then Inr (scast int32_min) else dateToInt64 (valueBlock (low rng)) x t) of
        Inl e \<Rightarrow> Inl e
      | Inr lo0 \<Rightarrow>
          let lo = (if \<not> lowUnbounded \<and> bound (low rng) = ABOVE then lo0 + 1 else lo0);
              highUnbounded = (valueBlock (high rng) = None) in
          case (if highUnbounded then Inr (scast int32_max) else dateToInt64 (valueBlock (high rng)) x t) of
            Inl e \<Rightarrow> Inl e
          | Inr hi0 \<Rightarrow>
              let hi = (if \<not> highUnbounded \<and> bound (high rng) = BELOW then hi0 - 1 else hi0)
              in Inr \<lparr>lower = lo, upper = hi, nullAllowed = na\<rparr>)"

definition boolRangeToFilter ::
  "'b Range \<Rightarrow> bool \<Rightarrow> 'b VeloxExprConverter \<Rightarrow> VType \<Rightarrow> error + Filter" where
  "boolRangeToFilter rng na x t =
     (let lowExclusive = (bound (low rng) = ABOVE);
          lowUnbounded = (valueBlock (low rng) = None \<and> lowExclusive);
          highExclusive = (bound (high rng) = BELOW);
          highUnbounded = (valueBlock (high rng) = None \<and> highExclusive) in
      if \<not> lowUnbounded \<and> \<not> highUnbounded then
        (case toBoolean (valueBlock (low rng)) x t of
           Inl e \<Rightarrow> Inl e
         | Inr lowValue \<Rightarrow>
             (case toBoolean (valueBlock (high rng)) x t of
                Inl e \<Rightarrow> Inl e
              | Inr highValue \<Rightarrow>
                  if lowValue \<noteq> highValue then
                    Inl (InvariantViolation
                      ''Boolean range should not be [FALSE, TRUE] after coordinator optimization.'')
                  else Inr (BoolValue lowValue na)))
      else if lowUnbounded = highUnbounded then
        Inl (InvariantViolation
          ''Passed in boolean range can only have one side bounded range scenario'')
      else if \<not> lowUnbounded then
        (if \<not> highUnbounded then
           Inl (InvariantViolation
             ''Boolean range should not be double side bounded after coordinator optimization.'')
         else
           (case toBoolean (valueBlock (low rng)) x t of
              Inl e \<Rightarrow> Inl e
            | Inr lowValue \<Rightarrow>
                if lowExclusive \<and> lowValue then
                  (if na then Inr IsNull else Inr AlwaysFalse)
                else if \<not> lowExclusive \<and> \<not> lowValue then
                  Inl (InvariantViolation ''Case [FALSE, +infinity) should not be expected'')
                else Inr (BoolValue True na)))
      else if \<not> highUnbounded then
        (if \<not> lowUnbounded then
           Inl (InvariantViolation
             ''Boolean range should not be double side bounded after coordinator optimization.'')
         else
           (case toBoolean (valueBlock (high rng)) x t of
              Inl e \<Rightarrow> Inl e
            | Inr highValue \<Rightarrow>
                if highExclusive \<and> \<not> highValue then
                  (if na then Inr IsNull else Inr AlwaysFalse)
                else if \<not> highExclusive \<and> highValue then
                  Inl (InvariantViolation ''Case (-infinity, TRUE] should not be expected'')
                else Inr (BoolValue False na)))
      else Inl (InvariantViolation ''VELOX_UNREACHABLE''))"

text \<open>
  \<^verbatim>\<open>std::numeric_limits<double>::lowest()\<close> and \<^verbatim>\<open>max()\<close>, and the same for
  \<^verbatim>\<open>float\<close>, as IEEE 754 bit patterns.
\<close>

definition double_lowest :: "64 word" where
  "double_lowest = 0xFFEFFFFFFFFFFFFF"

definition double_max :: "64 word" where
  "double_max = 0x7FEFFFFFFFFFFFFF"

definition float_lowest :: "32 word" where
  "float_lowest = 0xFF7FFFFF"

definition float_max :: "32 word" where
  "float_max = 0x7F7FFFFF"

definition doubleRangeToFilter ::
  "'b Range \<Rightarrow> bool \<Rightarrow> 'b VeloxExprConverter \<Rightarrow> VType \<Rightarrow> error + Filter" where
  "doubleRangeToFilter rng na x t =
     (let lowExclusive = (bound (low rng) = ABOVE);
          lowUnbounded = (valueBlock (low rng) = None \<and> lowExclusive) in
      case (if lowUnbounded then Inr double_lowest else toDouble (valueBlock (low rng)) x t) of
        Inl e \<Rightarrow> Inl e
      | Inr lo \<Rightarrow>
          let highExclusive = (bound (high rng) = BELOW);
              highUnbounded = (valueBlock (high rng) = None \<and> highExclusive) in
          case (if highUnbounded then Inr double_max else toDouble (valueBlock (high rng)) x t) of
            Inl e \<Rightarrow> Inl e
          | Inr hi \<Rightarrow>
              Inr (DoubleRange lo lowUnbounded lowExclusive hi highUnbounded highExclusive na))"

definition floatRangeToFilter ::
  "'b Range \<Rightarrow> bool \<Rightarrow> 'b VeloxExprConverter \<Rightarrow> VType \<Rightarrow> error + Filter" where
  "floatRangeToFilter rng na x t =
     (let lowExclusive = (bound (low rng) = ABOVE);
          lowUnbounded = (valueBlock (low rng) = None \<and> lowExclusive) in
      case (if lowUnbounded then Inr float_lowest else toFloat (valueBlock (low rng)) x t) of
        Inl e \<Rightarrow> Inl e
      | Inr lo \<Rightarrow>
          let highExclusive = (bound (high rng) = BELOW);
              highUnbounded = (valueBlock (high rng) = None \<and> highExclusive) in
          case (if highUnbounded then Inr float_max else toFloat (valueBlock (high rng)) x t) of
            Inl e \<Rightarrow> Inl e
          | Inr hi \<Rightarrow>
              Inr (FloatRange lo lowUnbounded lowExclusive hi highUnbounded highExclusive na))"

definition varcharRangeToFilter ::
  "'b Range \<Rightarrow> bool \<Rightarrow> 'b VeloxExprConverter \<Rightarrow> VType \<Rightarrow> error + BytesRange" where
  "varcharRangeToFilter rng na x t =
     (let lowExclusive = (bound (low rng) = ABOVE);
          lowUnbounded = (valueBlock (low rng) = None \<and> lowExclusive) in
      case (if lowUnbounded then Inr [] else toString (valueBlock (low rng)) x t) of
        Inl e \<Rightarrow> Inl e
      | Inr lo \<Rightarrow>
          let highExclusive = (bound (high rng) = BELOW);
              highUnbounded = (valueBlock (high rng) = None \<and> highExclusive) in
          case (if highUnbounded then Inr [] else toString (valueBlock (high rng)) x t) of
            Inl e \<Rightarrow> Inl e
          | Inr hi \<Rightarrow>
              Inr \<lparr>bytesLower = lo, isLowerUnbounded = lowUnbounded, lowerExclusive = lowExclusive,
                   bytesUpper = hi, isUpperUnbounded = highUnbounded,
                   upperExclusive = highExclusive, bytesNullAllowed = na\<rparr>)"

subsection \<open>Combining the ranges of one domain\<close>

text \<open>
  The loop of \<^verbatim>\<open>combineIntegerRanges\<close> over \<^verbatim>\<open>bigintFilters[1..]\<close>. The first argument is
  \<^verbatim>\<open>bigintFilters[i - 1]->upper()\<close>; the result is
  \<^verbatim>\<open>(allNegatedValues, foundMaximum, rejectedValues)\<close> when the loop is left.
\<close>

fun negatedValuesLoop :: "int64 \<Rightarrow> BigintRange list \<Rightarrow> int64 list \<Rightarrow> bool \<times> bool \<times> int64 list" where
  "negatedValuesLoop prevUpper [] rejectedValues = (True, False, rejectedValues)"
| "negatedValuesLoop prevUpper (f # rest) rejectedValues =
     (if lower f \<noteq> prevUpper + 2 then (False, False, rejectedValues)
      else if upper f = int64_max then (True, True, rejectedValues)
      else
        let rejectedValues' = rejectedValues @ [upper f + 1] in
        if upper f = int64_max - 1 then (True, True, rejectedValues')
        else negatedValuesLoop (upper f) rest rejectedValues')"

text \<open>
  The two \<^verbatim>\<open>assert\<close>s of the source are compiled out of a release build and are not
  modelled. \<^verbatim>\<open>bigintFilters[0]\<close> and \<^verbatim>\<open>[1]\<close> are read only where the vector has them:
  an empty vector takes the first branch.
\<close>

definition combineIntegerRanges :: "BigintRange list \<Rightarrow> bool \<Rightarrow> Filter" where
  "combineIntegerRanges bigintFilters na =
     (if list_all isSingleValue bigintFilters then
        createBigintValues (map lower bigintFilters) na
      else if length bigintFilters = 2 \<and> lower (bigintFilters ! 0) = int64_min \<and>
              upper (bigintFilters ! 1) = int64_max then
        NegatedBigintRange (upper (bigintFilters ! 0) + 1) (lower (bigintFilters ! 1) - 1) na
      else
        let rejectedValues =
              (if lower (hd bigintFilters) = int64_min + 1 then [int64_min] else []) in
        if int64_min + 1 <s lower (hd bigintFilters) then BigintMultiRange bigintFilters na
        else
          (case negatedValuesLoop (upper (hd bigintFilters)) (tl bigintFilters)
                  (rejectedValues @ [upper (hd bigintFilters) + 1]) of
             (allNegatedValues, foundMaximum, rejectedValues') \<Rightarrow>
               if allNegatedValues \<and> foundMaximum then
                 createNegatedBigintValues rejectedValues' na
               else BigintMultiRange bigintFilters na))"

text \<open>
  \<^verbatim>\<open>combineBytesRanges\<close>: the set \<^verbatim>\<open>unmatched\<close> is a duplicate-free list. One boundary
  either closes an unmatched one (and becomes a rejected value) or is recorded.
\<close>

definition pairBoundary :: "string \<Rightarrow> string list \<times> string list \<Rightarrow> string list \<times> string list" where
  "pairBoundary v st =
     (case st of (unmatched, rejectedValues) \<Rightarrow>
        if v \<in> set unmatched then (removeAll v unmatched, rejectedValues @ [v])
        else (unmatched @ [v], rejectedValues))"

fun bytesBoundaryLoop ::
  "BytesRange list \<Rightarrow> nat \<times> nat \<times> string list \<times> string list \<Rightarrow> nat \<times> nat \<times> string list \<times> string list" where
  "bytesBoundaryLoop [] st = st"
| "bytesBoundaryLoop (f # rest) (lowerUnbounded, upperUnbounded, unmatched, rejectedValues) =
     (let (lowerUnbounded', st1) =
            (if isLowerUnbounded f then (lowerUnbounded + 1, (unmatched, rejectedValues))
             else (lowerUnbounded, pairBoundary (bytesLower f) (unmatched, rejectedValues)));
          (upperUnbounded', st2) =
            (if isUpperUnbounded f then (upperUnbounded + 1, st1)
             else (upperUnbounded, pairBoundary (bytesUpper f) st1))
      in bytesBoundaryLoop rest (lowerUnbounded', upperUnbounded', fst st2, snd st2))"

definition combineBytesRanges :: "BytesRange list \<Rightarrow> bool \<Rightarrow> Filter" where
  "combineBytesRanges bytesFilters na =
     (if list_all bytesIsSingleValue bytesFilters then
        BytesValues (map bytesLower bytesFilters) na
      else
        let allExclusive = list_all (\<lambda>r. lowerExclusive r \<and> upperExclusive r) bytesFilters;
            scan = bytesBoundaryLoop bytesFilters (0, 0, [], []) in
        if allExclusive \<and> fst scan = 1 \<and> fst (snd scan) = 1 \<and> fst (snd (snd scan)) = [] then
          NegatedBytesValues (snd (snd (snd scan))) na
        else if length bytesFilters = 2 \<and> isLowerUnbounded (bytesFilters ! 0) \<and>
                isUpperUnbounded (bytesFilters ! 1) then
          NegatedBytesRange
            (bytesUpper (bytesFilters ! 0)) False (\<not> upperExclusive (bytesFilters ! 0))
            (bytesLower (bytesFilters ! 1)) False (\<not> lowerExclusive (bytesFilters ! 1)) na
        else MultiRange (map BytesRangeFilter bytesFilters) na False)"

subsection \<open>The two entry points\<close>

text \<open>A loop that converts the elements of a vector in order and stops at the first throw.\<close>

fun collect :: "('a \<Rightarrow> error + 'c) \<Rightarrow> 'a list \<Rightarrow> error + 'c list" where
  "collect f [] = Inr []"
| "collect f (a # as) =
     (case f a of
        Inl e \<Rightarrow> Inl e
      | Inr c \<Rightarrow> (case collect f as of Inl e \<Rightarrow> Inl e | Inr cs \<Rightarrow> Inr (c # cs)))"

definition isIntegerKind :: "TypeKind \<Rightarrow> bool" where
  "isIntegerKind k = (k = BIGINT \<or> k = INTEGER \<or> k = SMALLINT \<or> k = TINYINT)"

definition toFilter_Range ::
  "VType \<Rightarrow> 'b Range \<Rightarrow> bool \<Rightarrow> 'b VeloxExprConverter \<Rightarrow> error + Filter" where
  "toFilter_Range t rng na x =
     (if isIntegerKind (kind t) then
        (case bigintRangeToFilter rng na x t of Inl e \<Rightarrow> Inl e | Inr f \<Rightarrow> Inr (BigintRangeFilter f))
      else if kind t = DOUBLE then doubleRangeToFilter rng na x t
      else if kind t = VARCHAR then
        (case varcharRangeToFilter rng na x t of Inl e \<Rightarrow> Inl e | Inr f \<Rightarrow> Inr (BytesRangeFilter f))
      else if kind t = BOOLEAN then boolRangeToFilter rng na x t
      else if kind t = REAL then floatRangeToFilter rng na x t
      else if kind t = DATE then
        (case dateRangeToFilter rng na x t of Inl e \<Rightarrow> Inl e | Inr f \<Rightarrow> Inr (BigintRangeFilter f))
      else Inl (UnsupportedConstruct ''Unsupported range type: {}''))"

text \<open>
  The loop of the boolean branch of \<^verbatim>\<open>toFilter(Domain)\<close>: the second argument is
  \<^verbatim>\<open>boolFilter\<close>, \<open>None\<close> while it is null.
\<close>

fun boolFilterLoop ::
  "'b Range list \<Rightarrow> Filter option \<Rightarrow> bool \<Rightarrow> 'b VeloxExprConverter \<Rightarrow> VType \<Rightarrow> error + Filter option" where
  "boolFilterLoop [] boolFilter na x t = Inr boolFilter"
| "boolFilterLoop (rng # rest) boolFilter na x t =
     (case boolRangeToFilter rng na x t of
        Inl e \<Rightarrow> Inl e
      | Inr f \<Rightarrow>
          if f = AlwaysFalse \<or> f = IsNull then boolFilterLoop rest boolFilter na x t
          else if boolFilter \<noteq> None then Inl (InvariantViolation ''VELOX_CHECK_NULL(boolFilter)'')
          else boolFilterLoop rest (Some f) na x t)"

definition toFilter_Domain :: "'b Domain \<Rightarrow> 'b VeloxExprConverter \<Rightarrow> error + Filter" where
  "toFilter_Domain domain x =
     (let na = domainNullAllowed domain in
      case domainValues domain of
        SortedRangeSet typeString ranges \<Rightarrow>
          (case stringToType x typeString of
             Inl e \<Rightarrow> Inl e
           | Inr t \<Rightarrow>
               if ranges = [] then
                 (if na then Inr IsNull
                  else Inl (InvariantViolation ''Unexpected always-false filter''))
               else if length ranges = 1 then
                 (let rng = ranges ! 0;
                      lowExclusive = (bound (low rng) = ABOVE);
                      lowUnbounded = (valueBlock (low rng) = None \<and> lowExclusive);
                      highExclusive = (bound (high rng) = BELOW);
                      highUnbounded = (valueBlock (high rng) = None \<and> highExclusive) in
                  if lowUnbounded \<and> highUnbounded \<and> \<not> na then Inr IsNotNull
                  else toFilter_Range t (ranges ! 0) na x)
               else if isIntegerKind (kind t) then
                 (case collect (\<lambda>rng. bigintRangeToFilter rng na x t) ranges of
                    Inl e \<Rightarrow> Inl e
                  | Inr bigintFilters \<Rightarrow> Inr (combineIntegerRanges bigintFilters na))
               else if kind t = VARCHAR then
                 (case collect (\<lambda>rng. varcharRangeToFilter rng na x t) ranges of
                    Inl e \<Rightarrow> Inl e
                  | Inr bytesFilters \<Rightarrow> Inr (combineBytesRanges bytesFilters na))
               else if kind t = BOOLEAN then
                 (if length ranges \<noteq> 2 then
                    Inl (InvariantViolation ''Multi bool ranges size can only be 2.'')
                  else
                    (case boolFilterLoop ranges None na x t of
                       Inl e \<Rightarrow> Inl e
                     | Inr None \<Rightarrow> Inl (InvariantViolation ''VELOX_CHECK_NOT_NULL(boolFilter)'')
                     | Inr (Some boolFilter) \<Rightarrow> Inr boolFilter))
               else
                 (case collect (\<lambda>rng. toFilter_Range t rng na x) ranges of
                    Inl e \<Rightarrow> Inl e
                  | Inr filters \<Rightarrow> Inr (MultiRange filters na False)))
      | EquatableValueSet typeString entries \<Rightarrow>
          if entries = [] then (if na then Inr IsNull else Inr IsNotNull)
          else
            Inl (UnsupportedConstruct
              ''EquatableValueSet (with non-empty entries) to Velox filter conversion is not supported yet.'')
      | AllOrNoneValueSet typeString allOrNone \<Rightarrow>
          Inl (UnsupportedConstruct
            ''AllOrNoneValueSet to Velox filter conversion is not supported yet.'')
      | OtherValueSet tag \<Rightarrow> Inl (UnsupportedConstruct ''Unsupported filter found.''))"

section \<open>The internal data model: plan nodes\<close>

datatype JoinType =
    kInner | kLeft | kRight | kFull | kLeftSemiFilter | kLeftSemiProject
  | kRightSemiFilter | kRightSemiProject | kAnti

datatype LocalPartitionType = kGather | kRepartition

datatype CoreSortOrder = CoreSortOrder bool bool

type_synonym column_index_t = "32 word"

definition kConstantChannel :: column_index_t where
  "kConstantChannel = - 1"

text \<open>A vector of one row: its type and the value of the row.\<close>

type_synonym VectorPtr = "VType \<times> variant"

datatype PartitionFunctionSpec =
    GatherPartitionFunctionSpec
  | RoundRobinPartitionFunctionSpec
  | HashPartitionFunctionSpec VType "column_index_t list" "VectorPtr list"
  | HivePartitionFunctionSpec int32 "int32 list" "column_index_t list" "VectorPtr list"

datatype HiveColumnType = kPartitionKey | kRegular | kSynthesized

datatype ConnectorColumnHandle =
    ConnectorHiveColumnHandle string HiveColumnType VType "string list"
  | ConnectorTpchColumnHandle string

datatype ConnectorTableHandle =
    ConnectorHiveTableHandle string string bool "(string \<times> Filter) list" "TypedExpr option"
  | ConnectorTpchTableHandle string string "64 word"

datatype CorePlanNode =
    CoreProjectNode string "string list" "TypedExpr list" CorePlanNode
  | CoreFilterNode string TypedExpr CorePlanNode
  | CoreLimitNode string int64 int64 bool CorePlanNode
  | CoreHashJoinNode string JoinType bool "TypedExpr list" "TypedExpr list" "TypedExpr option"
      CorePlanNode CorePlanNode VType
  | CoreLocalPartitionNode string LocalPartitionType PartitionFunctionSpec "CorePlanNode list"
  | CoreLocalMergeNode string "TypedExpr list" "CoreSortOrder list" "CorePlanNode list"
  | CoreAssignUniqueIdNode string string int32 CorePlanNode
  | CoreEnforceSingleRowNode string CorePlanNode
  | CorePartitionedOutputNode string "TypedExpr list" int bool bool PartitionFunctionSpec VType
      CorePlanNode
  | CoreTableScanNode string VType ConnectorTableHandle "(string \<times> ConnectorColumnHandle) list"
  | CoreOtherNode string VType "CorePlanNode list"

text \<open>
  Modelled from the spec: the node classes of the engine are not among the repository's
  files. An internal node carries columns with resolved types; \<open>outputType\<close> is the row
  type a node produces, as the engine's classes compute it from the constructor's
  arguments. The constructors themselves are data: what a class checks when it is built
  is outside this model.
\<close>

fun outputType :: "CorePlanNode \<Rightarrow> VType" where
  "outputType (CoreProjectNode _ ns projections _) = RowType ns (map exprType projections)"
| "outputType (CoreFilterNode _ _ src) = outputType src"
| "outputType (CoreLimitNode _ _ _ _ src) = outputType src"
| "outputType (CoreHashJoinNode _ _ _ _ _ _ _ _ t) = t"
| "outputType (CoreLocalPartitionNode _ _ _ srcs) =
     (case srcs of [] \<Rightarrow> RowType [] [] | src # _ \<Rightarrow> outputType src)"
| "outputType (CoreLocalMergeNode _ _ _ srcs) =
     (case srcs of [] \<Rightarrow> RowType [] [] | src # _ \<Rightarrow> outputType src)"
| "outputType (CoreAssignUniqueIdNode _ idName _ src) =
     RowType (names (outputType src) @ [idName]) (children (outputType src) @ [ScalarType BIGINT])"
| "outputType (CoreEnforceSingleRowNode _ src) = outputType src"
| "outputType (CorePartitionedOutputNode _ _ _ _ _ _ t _) = t"
| "outputType (CoreTableScanNode _ t _ _) = t"
| "outputType (CoreOtherNode _ t _) = t"

text \<open>
  \<^verbatim>\<open>core::PartitionedOutputNode::single\<close> and \<^verbatim>\<open>::broadcast\<close>: no keys, a gathering
  partition function, and one partition for \<open>single\<close>.
\<close>

definition single :: "string \<Rightarrow> VType \<Rightarrow> CorePlanNode \<Rightarrow> CorePlanNode" where
  "single nodeId t src =
     CorePartitionedOutputNode nodeId [] 1 False False GatherPartitionFunctionSpec t src"

definition broadcast :: "string \<Rightarrow> int \<Rightarrow> VType \<Rightarrow> CorePlanNode \<Rightarrow> CorePlanNode" where
  "broadcast nodeId numPartitions t src =
     CorePartitionedOutputNode nodeId [] numPartitions True False GatherPartitionFunctionSpec t src"

definition gather :: "string \<Rightarrow> CorePlanNode list \<Rightarrow> CorePlanNode" where
  "gather nodeId srcs = CoreLocalPartitionNode nodeId kGather GatherPartitionFunctionSpec srcs"

datatype ExecutionStrategy = kUngrouped | kGrouped

record CorePlanFragment =
  planNode :: CorePlanNode
  executionStrategy :: ExecutionStrategy
  numSplitGroups :: int32
  groupedExecutionLeafNodeIds :: "string list"

section \<open>The wire data model: plan nodes\<close>

datatype ExchangeNodeType = GATHER | REPARTITION | REPLICATE

datatype ExchangeNodeScope = LOCAL | REMOTE_STREAMING | REMOTE_MATERIALIZED

datatype SystemPartitioning = SINGLE | FIXED | SOURCE | SCALED | COORDINATOR_ONLY | ARBITRARY

datatype SystemPartitionFunction =
  FunctionSINGLE | HASH | ROUND_ROBIN | BROADCAST | FunctionUNKNOWN

datatype BucketFunctionType = HIVE_COMPATIBLE | PRESTO_NATIVE

datatype ConnectorPartitioningHandle =
    SystemPartitioningHandle SystemPartitioning SystemPartitionFunction
  | HivePartitioningHandle int32 BucketFunctionType
  | OtherPartitioningHandle string

text \<open>
  \<open>partitioningHandle\<close> is \<^verbatim>\<open>partitioning.handle.connectorHandle\<close>,
  \<open>partitioningArguments\<close> is \<^verbatim>\<open>partitioning.arguments\<close>; \<open>bucketToPartition\<close> is a
  shared pointer to a vector of \<^verbatim>\<open>int\<close>.
\<close>

record 'b PartitioningScheme =
  partitioningHandle :: ConnectorPartitioningHandle
  partitioningArguments :: "'b RowExpression list"
  outputLayout :: "VariableReferenceExpression list"
  replicateNullsAndAny :: bool
  bucketToPartition :: "int32 list option"

datatype SortOrder = ASC_NULLS_FIRST | ASC_NULLS_LAST | DESC_NULLS_FIRST | DESC_NULLS_LAST

type_synonym OrderingScheme = "(VariableReferenceExpression \<times> SortOrder) list"

datatype LimitNodeStep = PARTIAL | FINAL

datatype ColumnType = PARTITION_KEY | REGULAR | SYNTHESIZED | AGGREGATED

datatype HiveColumnHandle = HiveColumnHandle string ColumnType string "string list"

datatype ColumnHandle =
    HiveColumn HiveColumnHandle
  | TpchColumnHandle string
  | OtherColumnHandle string

text \<open>\<open>domains\<close> is a shared pointer to the map from subfield to domain.\<close>

record 'b HiveTableLayoutHandle =
  pushdownFilterEnabled :: bool
  partitionColumns :: "HiveColumnHandle list"
  domains :: "(string \<times> 'b Domain) list option"
  remainingPredicate :: "'b RowExpression"

datatype 'b ConnectorTableLayoutHandle =
    HiveTableLayout "'b HiveTableLayoutHandle"
  | TpchTableLayoutHandle string "64 word"
  | OtherTableLayoutHandle string

datatype ConnectorHandle =
    HiveTableHandle string string
  | OtherConnectorHandle string

record 'b TableHandle =
  connectorId :: string
  connectorHandle :: ConnectorHandle
  connectorTableLayout :: "'b ConnectorTableLayoutHandle"

text \<open>
  The wire plan node. \<open>'o\<close> stands for the variants that no property below is about
  (Values, Aggregation, GroupId, DistinctLimit, Join, MergeJoin, RemoteSource, TopN, Sort,
  Unnest, TableWriter, Window and any variant the dispatcher does not know): a subtree
  rooted at one of them is lowered by a parameter of the converter. \<open>assignments\<close> lists
  the entries of the map in the order the translator iterates over it.
\<close>

datatype ('b, 'o) PlanNode =
    ExchangeNode (nodeId: string) ExchangeNodeType ExchangeNodeScope "'b PartitioningScheme"
      (sources: "('b, 'o) PlanNode list") "VariableReferenceExpression list list"
      "OrderingScheme option"
  | FilterNode (nodeId: string) (source: "('b, 'o) PlanNode") (predicate: "'b RowExpression")
  | ProjectNode (nodeId: string) (source: "('b, 'o) PlanNode")
      (assignments: "(VariableReferenceExpression \<times> 'b RowExpression) list")
  | LimitNode (nodeId: string) (source: "('b, 'o) PlanNode") (limitCount: int64)
      (step: LimitNodeStep)
  | RowNumberNode (nodeId: string) (source: "('b, 'o) PlanNode")
      (rowNumberVariable: VariableReferenceExpression)
  | SemiJoinNode (nodeId: string) (source: "('b, 'o) PlanNode")
      (filteringSource: "('b, 'o) PlanNode") VariableReferenceExpression
      VariableReferenceExpression VariableReferenceExpression
  | AssignUniqueId (nodeId: string) (source: "('b, 'o) PlanNode") VariableReferenceExpression
  | EnforceSingleRowNode (nodeId: string) (source: "('b, 'o) PlanNode")
  | OutputNode (nodeId: string) (source: "('b, 'o) PlanNode") "VariableReferenceExpression list"
  | TableScanNode (nodeId: string) "'b TableHandle" "VariableReferenceExpression list"
      "(VariableReferenceExpression \<times> ColumnHandle) list"
  | OtherNode 'o

datatype StageExecutionStrategy =
    UNGROUPED_EXECUTION
  | FIXED_LIFESPAN_SCHEDULE_GROUPED_EXECUTION
  | DYNAMIC_LIFESPAN_SCHEDULE_GROUPED_EXECUTION
  | RECOVERABLE_GROUPED_EXECUTION

record StageExecutionDescriptor =
  stageExecutionStrategy :: StageExecutionStrategy
  groupedExecutionScanNodes :: "string list"
  totalLifespans :: int32

record ('b, 'o) PlanFragment =
  root :: "('b, 'o) PlanNode"
  partitioningScheme :: "'b PartitioningScheme"
  stageExecutionDescriptor :: StageExecutionDescriptor

text \<open>
  The task id as \<^verbatim>\<open>PrestoTaskId\<close> has parsed it from its text; the parser is not among
  the repository's files.
\<close>

record PrestoTaskId =
  queryId :: string
  stageId :: int32
  stageExecutionId :: int32
  taskNumber :: int32
  attemptNumber :: int32


record ('b, 'o) VeloxQueryPlanConverterBase =
  exprConverter :: "'b VeloxExprConverter"
  lowerOther :: "'o \<Rightarrow> error + CorePlanNode"

section \<open>Table and column handle translator\<close>

definition getNames :: "(VariableReferenceExpression \<times> 'b RowExpression) list \<Rightarrow> string list" where
  "getNames asg = map (\<lambda>assignment. varName (fst assignment)) asg"

definition toRowType ::
  "'b VeloxExprConverter \<Rightarrow> VariableReferenceExpression list \<Rightarrow> string list \<Rightarrow> error + VType" where
  "toRowType x variables excludeNames =
     (let kept = filter (\<lambda>variable. varName variable \<notin> set excludeNames) variables in
      case collect (\<lambda>variable. stringToType x (varType variable)) kept of
        Inl e \<Rightarrow> Inl e
      | Inr types \<Rightarrow> Inr (RowType (map varName kept) types))"

definition toHiveColumnType :: "ColumnType \<Rightarrow> error + HiveColumnType" where
  "toHiveColumnType columnType =
     (case columnType of
        PARTITION_KEY \<Rightarrow> Inr kPartitionKey
      | REGULAR \<Rightarrow> Inr kRegular
      | SYNTHESIZED \<Rightarrow> Inr kSynthesized
      | AGGREGATED \<Rightarrow> Inl (UnsupportedConstruct ''Unsupported Hive column type: {}.''))"

definition toRequiredSubfields :: "string list \<Rightarrow> string list" where
  "toRequiredSubfields subfields = subfields"

definition toColumnHandle :: "'b VeloxExprConverter \<Rightarrow> ColumnHandle \<Rightarrow> error + ConnectorColumnHandle" where
  "toColumnHandle x column =
     (case column of
        HiveColumn (HiveColumnHandle name columnType typeSignature requiredSubfields) \<Rightarrow>
          (case toHiveColumnType columnType of
             Inl e \<Rightarrow> Inl e
           | Inr ct \<Rightarrow>
               (case stringToType x typeSignature of
                  Inl e \<Rightarrow> Inl e
                | Inr t \<Rightarrow>
                    Inr (ConnectorHiveColumnHandle name ct t (toRequiredSubfields requiredSubfields))))
      | TpchColumnHandle columnName \<Rightarrow> Inr (ConnectorTpchColumnHandle columnName)
      | OtherColumnHandle tag \<Rightarrow> Inl (UnsupportedConstruct ''Unsupported column handle type: {}.''))"

text \<open>\<^verbatim>\<open>unordered_map::emplace\<close>: an entry whose key is present is left as it is.\<close>

definition emplace :: "string \<Rightarrow> 'v \<Rightarrow> (string \<times> 'v) list \<Rightarrow> (string \<times> 'v) list" where
  "emplace k v m = (if k \<in> fst ` set m then m else m @ [(k, v)])"

fun emplaceColumns ::
  "'b VeloxExprConverter \<Rightarrow> (string \<times> ColumnHandle) list \<Rightarrow> (string \<times> ConnectorColumnHandle) list \<Rightarrow>
   error + (string \<times> ConnectorColumnHandle) list" where
  "emplaceColumns x [] m = Inr m"
| "emplaceColumns x ((name, column) # rest) m =
     (case toColumnHandle x column of
        Inl e \<Rightarrow> Inl e
      | Inr handle \<Rightarrow> emplaceColumns x rest (emplace name handle m))"

definition hiveColumnName :: "HiveColumnHandle \<Rightarrow> string" where
  "hiveColumnName column = (case column of HiveColumnHandle name _ _ _ \<Rightarrow> name)"

definition toConnectorTableHandle ::
  "'b TableHandle \<Rightarrow> 'b VeloxExprConverter \<Rightarrow> (string \<times> ConnectorColumnHandle) list \<Rightarrow>
   error + ConnectorTableHandle \<times> (string \<times> ConnectorColumnHandle) list" where
  "toConnectorTableHandle tableHandle x partitionColumns0 =
     (case connectorTableLayout tableHandle of
        HiveTableLayout hiveLayout \<Rightarrow>
          if \<not> pushdownFilterEnabled hiveLayout then
            Inl (InvariantViolation ''Table scan with filter pushdown disabled is not supported'')
          else
            (case emplaceColumns x
                    (map (\<lambda>entry. (hiveColumnName entry, HiveColumn entry)) (partitionColumns hiveLayout))
                    partitionColumns0 of
               Inl e \<Rightarrow> Inl e
             | Inr partitionColumns' \<Rightarrow>
                 (case domains hiveLayout of
                    None \<Rightarrow> Inl (UndefinedBehavior ''dereference of a null domains pointer'')
                  | Some ds \<Rightarrow>
                      (case collect (\<lambda>domain.
                              case toFilter_Domain (snd domain) x of
                                Inl e \<Rightarrow> Inl e
                              | Inr f \<Rightarrow> Inr (fst domain, f)) ds of
                         Inl e \<Rightarrow> Inl e
                       | Inr subfieldFilters \<Rightarrow>
                           (case toVeloxExpr x (remainingPredicate hiveLayout) of
                              Inl e \<Rightarrow> Inl e
                            | Inr remainingFilter0 \<Rightarrow>
                                (case (case remainingFilter0 of
                                         ConstantTypedExpr _ v \<Rightarrow>
                                           (case variantToBool v of
                                              Inl e \<Rightarrow> Inl e
                                            | Inr b \<Rightarrow>
                                                if b then Inr None
                                                else Inl (InvariantViolation
                                                  ''Unexpected always-false remaining predicate''))
                                       | _ \<Rightarrow> Inr (Some remainingFilter0)) of
                                   Inl e \<Rightarrow> Inl e
                                 | Inr remainingFilter \<Rightarrow>
                                     (case connectorHandle tableHandle of
                                        OtherConnectorHandle _ \<Rightarrow>
                                          Inl (InvariantViolation ''VELOX_CHECK_NOT_NULL(hiveTableHandle)'')
                                      | HiveTableHandle schemaName tableName \<Rightarrow>
                                          Inr (ConnectorHiveTableHandle (connectorId tableHandle)
                                                 (if schemaName = [] then tableName
                                                  else schemaName @ ''.'' @ tableName)
                                                 True subfieldFilters remainingFilter,
                                               partitionColumns')))))))
      | TpchTableLayoutHandle tableName scaleFactor \<Rightarrow>
          (case tpchFromTableName x tableName of
             Inl e \<Rightarrow> Inl e
           | Inr tpchTable \<Rightarrow>
               Inr (ConnectorTpchTableHandle (connectorId tableHandle) tpchTable scaleFactor,
                    partitionColumns0))
      | OtherTableLayoutHandle tag \<Rightarrow> Inl (UnsupportedConstruct ''Unsupported TableHandle type: {}.''))"

definition getProjections ::
  "'b VeloxExprConverter \<Rightarrow> (VariableReferenceExpression \<times> 'b RowExpression) list \<Rightarrow>
   error + TypedExpr list" where
  "getProjections x asg = collect (\<lambda>assignment. toVeloxExpr x (snd assignment)) asg"

section \<open>Partitioning helpers\<close>

definition toVeloxSortOrder :: "SortOrder \<Rightarrow> CoreSortOrder" where
  "toVeloxSortOrder sortOrder =
     (case sortOrder of
        ASC_NULLS_FIRST \<Rightarrow> CoreSortOrder True True
      | ASC_NULLS_LAST \<Rightarrow> CoreSortOrder True False
      | DESC_NULLS_FIRST \<Rightarrow> CoreSortOrder False True
      | DESC_NULLS_LAST \<Rightarrow> CoreSortOrder False False)"

definition isFixedPartition ::
  "ExchangeNodeType \<Rightarrow> 'b PartitioningScheme \<Rightarrow> SystemPartitionFunction \<Rightarrow> bool" where
  "isFixedPartition exchangeType scheme partitionFunction =
     (if exchangeType \<noteq> REPARTITION then False
      else
        (case partitioningHandle scheme of
           SystemPartitioningHandle partitioning fn \<Rightarrow>
             if partitioning \<noteq> FIXED then False
             else if fn \<noteq> partitionFunction then False
             else True
         | _ \<Rightarrow> False))"

definition isHashPartition :: "ExchangeNodeType \<Rightarrow> 'b PartitioningScheme \<Rightarrow> bool" where
  "isHashPartition exchangeType scheme = isFixedPartition exchangeType scheme HASH"

definition isRoundRobinPartition :: "ExchangeNodeType \<Rightarrow> 'b PartitioningScheme \<Rightarrow> bool" where
  "isRoundRobinPartition exchangeType scheme = isFixedPartition exchangeType scheme ROUND_ROBIN"

definition toFieldExprs :: "'b RowExpression list \<Rightarrow> 'b VeloxExprConverter \<Rightarrow> error + TypedExpr list" where
  "toFieldExprs expressions x =
     collect (\<lambda>expr.
        case toVeloxExpr x expr of
          Inl e \<Rightarrow> Inl e
        | Inr (FieldAccessTypedExpr t name) \<Rightarrow> Inr (FieldAccessTypedExpr t name)
        | Inr _ \<Rightarrow> Inl (InvariantViolation ''Unexpected expression type: {}. Expected variable.''))
       expressions"

definition toTypedExprs :: "'b RowExpression list \<Rightarrow> 'b VeloxExprConverter \<Rightarrow> error + TypedExpr list" where
  "toTypedExprs expressions x =
     collect (\<lambda>expr.
        case toVeloxExpr x expr of
          Inl e \<Rightarrow> Inl e
        | Inr (FieldAccessTypedExpr t name) \<Rightarrow> Inr (FieldAccessTypedExpr t name)
        | Inr (ConstantTypedExpr t v) \<Rightarrow> Inr (ConstantTypedExpr t v)
        | Inr _ \<Rightarrow>
            Inl (InvariantViolation
              ''Unexpected expression type: {}. Expected variable or constant.''))
       expressions"

text \<open>
  \<^verbatim>\<open>RowType::getChildIdx\<close> of the engine: the position of the first column of that name,
  a user error when there is none.
\<close>

fun positionOf :: "string \<Rightarrow> string list \<Rightarrow> nat option" where
  "positionOf name [] = None"
| "positionOf name (n # ns) =
     (if n = name then Some 0 else map_option Suc (positionOf name ns))"

definition getChildIdx :: "VType \<Rightarrow> string \<Rightarrow> error + column_index_t" where
  "getChildIdx t name =
     (case positionOf name (names t) of
        None \<Rightarrow> Inl (UserError ''Field not found: {}'')
      | Some i \<Rightarrow> Inr (of_nat i))"

definition toChannels :: "VType \<Rightarrow> TypedExpr list \<Rightarrow> error + column_index_t list" where
  "toChannels t fieldExprs =
     collect (\<lambda>field.
        case field of
          FieldAccessTypedExpr _ name \<Rightarrow> getChildIdx t name
        | _ \<Rightarrow> Inl (UndefinedBehavior ''a key that is no field access'')) fieldExprs"

definition exprToChannel :: "TypedExpr \<Rightarrow> VType \<Rightarrow> error + column_index_t" where
  "exprToChannel expr t =
     (case expr of
        FieldAccessTypedExpr _ name \<Rightarrow> getChildIdx t name
      | ConstantTypedExpr _ _ \<Rightarrow> Inr kConstantChannel
      | _ \<Rightarrow> Inl (InvariantViolation ''Expression must be field access or constant''))"

definition toLocalExchangeType :: "ExchangeNodeType \<Rightarrow> error + LocalPartitionType" where
  "toLocalExchangeType exchangeType =
     (case exchangeType of
        GATHER \<Rightarrow> Inr kGather
      | REPARTITION \<Rightarrow> Inr kRepartition
      | REPLICATE \<Rightarrow> Inl (UnsupportedConstruct ''Unsupported exchange type: {}''))"


section \<open>Plan rewrites: pattern detectors\<close>

definition equal :: "'b RowExpression \<Rightarrow> VariableReferenceExpression \<Rightarrow> bool" where
  "equal actual expected =
     (case actual of
        VariableReference variableReference \<Rightarrow>
          varName variableReference = varName expected \<and>
          varType variableReference = varType expected
      | _ \<Rightarrow> False)"

definition isFunctionCall :: "'b RowExpression \<Rightarrow> string \<Rightarrow> 'b RowExpression option" where
  "isFunctionCall expression functionName =
     (case expression of
        CallExpression displayName handle returnType args \<Rightarrow>
          (case handle of
             BuiltInFunctionHandle signature \<Rightarrow>
               if signatureKind signature = SCALAR \<and> signatureName signature = functionName
               then Some expression else None
           | _ \<Rightarrow> None)
      | _ \<Rightarrow> None)"

definition isNot :: "'b RowExpression \<Rightarrow> 'b RowExpression option" where
  "isNot expression = isFunctionCall expression ''presto.default.not''"

definition isGreaterThan :: "'b RowExpression \<Rightarrow> 'b RowExpression option" where
  "isGreaterThan expression =
     isFunctionCall expression ''presto.default.$operator$greater_than''"

fun arguments :: "'b RowExpression \<Rightarrow> 'b RowExpression list" where
  "arguments (CallExpression _ _ _ args) = args"
| "arguments (SpecialFormExpression _ _ args) = args"
| "arguments _ = []"

text \<open>\<^verbatim>\<open>v[i]\<close> on a vector: reading past the end has no defined behaviour.\<close>

definition at :: "'a list \<Rightarrow> nat \<Rightarrow> error + 'a" where
  "at v i = (if i < length v then Inr (v ! i) else Inl (UndefinedBehavior ''read past the end of a vector''))"

fun isLocalSingleSourceExchange :: "('b, 'o) PlanNode \<Rightarrow> ('b, 'o) PlanNode option" where
  "isLocalSingleSourceExchange (ExchangeNode nid exchangeType scope scheme srcs ins os) =
     (if scope = LOCAL \<and> length srcs = 1
      then Some (ExchangeNode nid exchangeType scope scheme srcs ins os) else None)"
| "isLocalSingleSourceExchange _ = None"

fun isIdentityProjection :: "('b, 'o) PlanNode \<Rightarrow> ('b, 'o) PlanNode option" where
  "isIdentityProjection (ProjectNode nid src asg) =
     (if list_all (\<lambda>entry. equal (snd entry) (fst entry)) asg
      then Some (ProjectNode nid src asg) else None)"
| "isIdentityProjection _ = None"

fun roundRobinExchange :: "('b, 'o) PlanNode \<Rightarrow> bool" where
  "roundRobinExchange (ExchangeNode nid exchangeType scope scheme srcs ins os) =
     isRoundRobinPartition exchangeType scheme"
| "roundRobinExchange _ = False"

fun asLimitNode :: "('b, 'o) PlanNode \<Rightarrow> ('b, 'o) PlanNode option" where
  "asLimitNode (LimitNode nid src n st) = Some (LimitNode nid src n st)"
| "asLimitNode _ = None"

fun asFilterNode :: "('b, 'o) PlanNode \<Rightarrow> ('b, 'o) PlanNode option" where
  "asFilterNode (FilterNode nid src p) = Some (FilterNode nid src p)"
| "asFilterNode _ = None"

fun asRowNumberNode :: "('b, 'o) PlanNode \<Rightarrow> ('b, 'o) PlanNode option" where
  "asRowNumberNode (RowNumberNode nid src v) = Some (RowNumberNode nid src v)"
| "asRowNumberNode _ = None"

text \<open>\<^verbatim>\<open>variant::value<int64_t>()\<close> and \<^verbatim>\<open>value<bool>()\<close> check the kind of the constant.\<close>

fun variantBigintValue :: "variant \<Rightarrow> error + int64" where
  "variantBigintValue (BigintVariant v) = Inr v"
| "variantBigintValue _ = Inl (InvariantViolation ''variant is not a BIGINT'')"

text \<open>
  \<^verbatim>\<open>tryConvertOffsetLimit\<close>. The second argument is the translator itself, through which
  the source of the row-number node is lowered. \<open>Inr None\<close> is the null pointer the
  source returns for "no match". The arguments of \<^verbatim>\<open>make_shared\<close> are evaluated from
  left to right here; C++ leaves their order open, which only decides which of two
  failures is reported.
\<close>

definition tryConvertOffsetLimit ::
  "'b VeloxExprConverter \<Rightarrow> (('b, 'o) PlanNode \<Rightarrow> error + CorePlanNode) \<Rightarrow> ('b, 'o) PlanNode \<Rightarrow>
   error + CorePlanNode option" where
  "tryConvertOffsetLimit x translate node =
     (case isIdentityProjection node of
        None \<Rightarrow> Inr None
      | Some identityProjections \<Rightarrow>
     (case isLocalSingleSourceExchange (source node) of
        None \<Rightarrow> Inr None
      | Some exchangeBeforeProject \<Rightarrow>
     if \<not> roundRobinExchange exchangeBeforeProject then Inr None else
     (case asLimitNode (sources exchangeBeforeProject ! 0) of
        None \<Rightarrow> Inr None
      | Some limitNode \<Rightarrow>
     (case isLocalSingleSourceExchange (source limitNode) of
        None \<Rightarrow> Inr None
      | Some exchangeBeforeLimit \<Rightarrow>
     (case asFilterNode (sources exchangeBeforeLimit ! 0) of
        None \<Rightarrow> Inr None
      | Some filterNode \<Rightarrow>
     (case isLocalSingleSourceExchange (source filterNode) of
        None \<Rightarrow> Inr None
      | Some exchangeBeforeFilter \<Rightarrow>
     (case asRowNumberNode (sources exchangeBeforeFilter ! 0) of
        None \<Rightarrow> Inr None
      | Some rowNumber \<Rightarrow>
     (case isGreaterThan (predicate filterNode) of
        None \<Rightarrow> Inr None
      | Some gt \<Rightarrow>
     (case at (arguments gt) 0 of
        Inl e \<Rightarrow> Inl e
      | Inr argument0 \<Rightarrow>
     if \<not> equal argument0 (rowNumberVariable rowNumber) then Inr None else
     (case at (arguments gt) 1 of
        Inl e \<Rightarrow> Inl e
      | Inr argument1 \<Rightarrow>
     (case toVeloxExpr x argument1 of
        Inl e \<Rightarrow> Inl e
      | Inr offsetExpr \<Rightarrow>
     (case offsetExpr of
        ConstantTypedExpr t v \<Rightarrow>
          if \<not> isBigint t then Inr None
          else
            (case variantBigintValue v of
               Inl e \<Rightarrow> Inl e
             | Inr offset \<Rightarrow>
                 if list_ex (\<lambda>entry. equal (snd entry) (rowNumberVariable rowNumber))
                      (assignments node)
                 then Inr None
                 else
                   (case getProjections x (assignments node) of
                      Inl e \<Rightarrow> Inl e
                    | Inr projections \<Rightarrow>
                        (case translate (source rowNumber) of
                           Inl e \<Rightarrow> Inl e
                         | Inr rowNumberSource \<Rightarrow>
                             Inr (Some
                               (CoreProjectNode (nodeId node) (getNames (assignments node))
                                  projections
                                  (CoreLimitNode (nodeId limitNode) offset (limitCount limitNode)
                                     (step limitNode = PARTIAL) rowNumberSource))))))
      | _ \<Rightarrow> Inr None))))))))))))"


lemma collect_cong [fundef_cong]:
  "xs = ys \<Longrightarrow> (\<And>a. a \<in> set ys \<Longrightarrow> f a = g a) \<Longrightarrow> collect f xs = collect g ys"
  by (induction ys arbitrary: xs) (auto split: sum.splits)

lemma single_source_smaller:
  "isLocalSingleSourceExchange n = Some e \<Longrightarrow> size (sources e ! 0) < size n"
  by (cases n) (auto split: if_splits simp: length_Suc_conv)

lemma limit_source_smaller: "asLimitNode n = Some l \<Longrightarrow> size (source l) < size n"
  by (cases n) auto

lemma filter_source_smaller: "asFilterNode n = Some f \<Longrightarrow> size (source f) < size n"
  by (cases n) auto

lemma rowNumber_source_smaller: "asRowNumberNode n = Some r \<Longrightarrow> size (source r) < size n"
  by (cases n) auto

lemma project_source_smaller: "isIdentityProjection n \<noteq> None \<Longrightarrow> size (source n) < size n"
  by (cases n) (auto split: if_splits)

lemma tryConvertOffsetLimit_cong [fundef_cong]:
  assumes "node = node'" and "\<And>n. size n < size node' \<Longrightarrow> translate n = translate' n"
  shows "tryConvertOffsetLimit x translate node = tryConvertOffsetLimit x translate' node'"
proof -
  have "translate (source rowNumber) = translate' (source rowNumber)"
    if "isIdentityProjection node \<noteq> None"
      and "isLocalSingleSourceExchange (source node) = Some e1"
      and "asLimitNode (sources e1 ! 0) = Some limitNode"
      and "isLocalSingleSourceExchange (source limitNode) = Some e2"
      and "asFilterNode (sources e2 ! 0) = Some filterNode"
      and "isLocalSingleSourceExchange (source filterNode) = Some e3"
      and "asRowNumberNode (sources e3 ! 0) = Some rowNumber"
    for e1 limitNode e2 filterNode e3 rowNumber
  proof -
    have "size (source rowNumber) < size node"
      using project_source_smaller [OF that(1)] single_source_smaller [OF that(2)]
        limit_source_smaller [OF that(3)] single_source_smaller [OF that(4)]
        filter_source_smaller [OF that(5)] single_source_smaller [OF that(6)]
        rowNumber_source_smaller [OF that(7)]
      by linarith
    then show ?thesis
      using assms by simp
  qed
  then show ?thesis
    unfolding tryConvertOffsetLimit_def assms(1) [symmetric]
    by (auto split: option.splits sum.splits TypedExpr.splits)
qed


section \<open>Plan node translator\<close>

text \<open>The decimal text of an index, for \<^verbatim>\<open>fmt::format("{}.{}", node->id, i)\<close>.\<close>

fun decimal :: "nat \<Rightarrow> string" where
  "decimal n =
     (if n < 10 then [''0123456789'' ! n]
      else decimal (n div 10) @ [''0123456789'' ! (n mod 10)])"

text \<open>\<^verbatim>\<open>RowType::nameOf\<close> of the engine checks its index.\<close>

definition nameOf :: "VType \<Rightarrow> nat \<Rightarrow> error + string" where
  "nameOf t j =
     (if j < length (names t) then Inr (names t ! j)
      else Inl (InvariantViolation ''RowType::nameOf: index out of range''))"

text \<open>
  The loop of the exchange translation that puts a re-ordering projection on top of
  source \<open>i\<close>, \<open>i + 1\<close>, ...
\<close>

fun reorderSources ::
  "'b VeloxExprConverter \<Rightarrow> string \<Rightarrow> VType \<Rightarrow> VariableReferenceExpression list list \<Rightarrow> nat \<Rightarrow>
   CorePlanNode list \<Rightarrow> error + CorePlanNode list" where
  "reorderSources x nid outType ins i [] = Inr []"
| "reorderSources x nid outType ins i (src # rest) =
     (case at ins i of
        Inl e \<Rightarrow> Inl e
      | Inr input \<Rightarrow>
          (case toRowType x input [] of
             Inl e \<Rightarrow> Inl e
           | Inr desiredSourceOutput \<Rightarrow>
               (case collect (\<lambda>j.
                       case nameOf desiredSourceOutput j of
                         Inl e \<Rightarrow> Inl e
                       | Inr name \<Rightarrow> Inr (FieldAccessTypedExpr (children outType ! j) name))
                     [0..<length (children outType)] of
                  Inl e \<Rightarrow> Inl e
                | Inr projections \<Rightarrow>
                    (case reorderSources x nid outType ins (i + 1) rest of
                       Inl e \<Rightarrow> Inl e
                     | Inr rest' \<Rightarrow>
                         Inr (CoreProjectNode (nid @ ''.'' @ decimal i) (names outType)
                                projections src # rest')))))"

text \<open>
  The exchange translation after its sources have been lowered to \<open>sourceNodes\<close>.
\<close>

definition localExchange ::
  "'b VeloxExprConverter \<Rightarrow> string \<Rightarrow> ExchangeNodeType \<Rightarrow> 'b PartitioningScheme \<Rightarrow>
   VariableReferenceExpression list list \<Rightarrow> OrderingScheme option \<Rightarrow> CorePlanNode list \<Rightarrow>
   error + CorePlanNode" where
  "localExchange x nid exchangeType scheme ins os sourceNodes =
     (case os of
        Some orderBy \<Rightarrow>
          (case collect (\<lambda>entry. toVeloxExprVariable x (fst entry)) orderBy of
             Inl e \<Rightarrow> Inl e
           | Inr sortingKeys \<Rightarrow>
               Inr (CoreLocalMergeNode nid sortingKeys
                      (map (\<lambda>entry. toVeloxSortOrder (snd entry)) orderBy) sourceNodes))
      | None \<Rightarrow>
          (case toLocalExchangeType exchangeType of
             Inl e \<Rightarrow> Inl e
           | Inr localType \<Rightarrow>
               (case toRowType x (outputLayout scheme) [] of
                  Inl e \<Rightarrow> Inl e
                | Inr outType \<Rightarrow>
                    (case reorderSources x nid outType ins 0 sourceNodes of
                       Inl e \<Rightarrow> Inl e
                     | Inr reordered \<Rightarrow>
                         if isHashPartition exchangeType scheme then
                           (case toFieldExprs (partitioningArguments scheme) x of
                              Inl e \<Rightarrow> Inl e
                            | Inr partitionKeys \<Rightarrow>
                                (case toChannels outType partitionKeys of
                                   Inl e \<Rightarrow> Inl e
                                 | Inr keyChannels \<Rightarrow>
                                     Inr (CoreLocalPartitionNode nid localType
                                            (HashPartitionFunctionSpec outType keyChannels [])
                                            reordered)))
                         else if isRoundRobinPartition exchangeType scheme then
                           Inr (CoreLocalPartitionNode nid localType
                                  RoundRobinPartitionFunctionSpec reordered)
                         else if localType = kGather then Inr (gather nid reordered)
                         else Inl (UnsupportedConstruct ''Unsupported flavor of local exchange: {}'')))))"

text \<open>
  The filter translation over a semi join, in two parts: the join type the predicate
  selects (\<open>None\<close> is \<^verbatim>\<open>std::nullopt\<close>), and the node built once the keys and both
  sides have been lowered.
\<close>

definition semiJoinType ::
  "'b RowExpression \<Rightarrow> VariableReferenceExpression \<Rightarrow> error + JoinType option" where
  "semiJoinType pred semiJoinOutput =
     (if equal pred semiJoinOutput then Inr (Some kLeftSemiFilter)
      else
        (case isNot pred of
           None \<Rightarrow> Inr None
         | Some notCall \<Rightarrow>
             (case at (arguments notCall) 0 of
                Inl e \<Rightarrow> Inl e
              | Inr argument0 \<Rightarrow>
                  if equal argument0 semiJoinOutput then Inr (Some kAnti) else Inr None)))"

definition semiJoin ::
  "'b VeloxExprConverter \<Rightarrow> string \<Rightarrow> 'b RowExpression \<Rightarrow> string \<Rightarrow> VariableReferenceExpression \<Rightarrow>
   JoinType option \<Rightarrow> TypedExpr list \<Rightarrow> TypedExpr list \<Rightarrow> CorePlanNode \<Rightarrow> CorePlanNode \<Rightarrow>
   error + CorePlanNode" where
  "semiJoin x nid pred semiJoinId semiJoinOutput joinType leftKeys rightKeys left right =
     (let leftNames = names (outputType left);
          leftTypes = children (outputType left);
          allNames = leftNames @ [varName semiJoinOutput] in
      case joinType of
        None \<Rightarrow>
          (case toVeloxExpr x pred of
             Inl e \<Rightarrow> Inl e
           | Inr p \<Rightarrow>
               Inr (CoreFilterNode nid p
                      (CoreHashJoinNode semiJoinId kLeftSemiProject False leftKeys rightKeys None
                         left right (RowType allNames (leftTypes @ [ScalarType BOOLEAN])))))
      | Some jt \<Rightarrow>
          Inr (CoreProjectNode nid allNames
                 (map (\<lambda>i. FieldAccessTypedExpr (leftTypes ! i) (leftNames ! i))
                      [0..<length leftNames] @
                  [ConstantTypedExpr (ScalarType BOOLEAN) (BooleanVariant (jt = kLeftSemiFilter))])
                 (CoreHashJoinNode semiJoinId jt (jt = kAnti) leftKeys rightKeys None
                    left right (outputType left))))"

text \<open>
  \<^verbatim>\<open>taskUniqueId\<close> of the AssignUniqueId translation, on \<^verbatim>\<open>int32_t\<close>:
  \<^verbatim>\<open>(stageId & ((1 << 10) - 1)) << 14 | (id & ((1 << 14) - 1))\<close>.
\<close>

definition taskUniqueId :: "int32 \<Rightarrow> int32 \<Rightarrow> int32" where
  "taskUniqueId stage task =
     push_bit 14 (stage AND (push_bit 10 1 - 1)) OR (task AND (push_bit 14 1 - 1))"

text \<open>
  The dispatcher \<^verbatim>\<open>toVeloxQueryPlan(PlanNode)\<close> with the overload it selects for each
  variant. RowNumber, SemiJoin and Output nodes have no case in the dispatcher.
  Arguments of one constructor call are evaluated from left to right.
\<close>

fun toVeloxQueryPlan ::
  "('b, 'o) VeloxQueryPlanConverterBase \<Rightarrow> PrestoTaskId \<Rightarrow> ('b, 'o) PlanNode \<Rightarrow> error + CorePlanNode" where
  "toVeloxQueryPlan c taskId (ExchangeNode nid exchangeType scope scheme srcs ins os) =
     (if scope \<noteq> LOCAL then Inl (UserError ''Unsupported ExchangeNode scope'')
      else
        (case collect (toVeloxQueryPlan c taskId) srcs of
           Inl e \<Rightarrow> Inl e
         | Inr sourceNodes \<Rightarrow>
             localExchange (exprConverter c) nid exchangeType scheme ins os sourceNodes))"
| "toVeloxQueryPlan c taskId (FilterNode nid src pred) =
     (case src of
        SemiJoinNode semiJoinId probe build sourceJoinVariable filteringSourceJoinVariable
            semiJoinOutput \<Rightarrow>
          (case semiJoinType pred semiJoinOutput of
             Inl e \<Rightarrow> Inl e
           | Inr joinType \<Rightarrow>
          (case toVeloxExprVariable (exprConverter c) sourceJoinVariable of
             Inl e \<Rightarrow> Inl e
           | Inr leftKey \<Rightarrow>
          (case toVeloxExprVariable (exprConverter c) filteringSourceJoinVariable of
             Inl e \<Rightarrow> Inl e
           | Inr rightKey \<Rightarrow>
          (case toVeloxQueryPlan c taskId probe of
             Inl e \<Rightarrow> Inl e
           | Inr left \<Rightarrow>
          (case toVeloxQueryPlan c taskId build of
             Inl e \<Rightarrow> Inl e
           | Inr right \<Rightarrow>
               semiJoin (exprConverter c) nid pred semiJoinId semiJoinOutput joinType
                 [leftKey] [rightKey] left right)))))
      | _ \<Rightarrow>
          (case toVeloxExpr (exprConverter c) pred of
             Inl e \<Rightarrow> Inl e
           | Inr p \<Rightarrow>
               (case toVeloxQueryPlan c taskId src of
                  Inl e \<Rightarrow> Inl e
                | Inr s \<Rightarrow> Inr (CoreFilterNode nid p s))))"
| "toVeloxQueryPlan c taskId (ProjectNode nid src asg) =
     (case tryConvertOffsetLimit (exprConverter c) (toVeloxQueryPlan c taskId)
             (ProjectNode nid src asg) of
        Inl e \<Rightarrow> Inl e
      | Inr (Some limit) \<Rightarrow> Inr limit
      | Inr None \<Rightarrow>
          (case getProjections (exprConverter c) asg of
             Inl e \<Rightarrow> Inl e
           | Inr projections \<Rightarrow>
               (case toVeloxQueryPlan c taskId src of
                  Inl e \<Rightarrow> Inl e
                | Inr s \<Rightarrow> Inr (CoreProjectNode nid (getNames asg) projections s))))"
| "toVeloxQueryPlan c taskId (LimitNode nid src n st) =
     (case toVeloxQueryPlan c taskId src of
        Inl e \<Rightarrow> Inl e
      | Inr s \<Rightarrow> Inr (CoreLimitNode nid 0 n (st = PARTIAL) s))"
| "toVeloxQueryPlan c taskId (AssignUniqueId nid src idVariable) =
     (case toVeloxQueryPlan c taskId src of
        Inl e \<Rightarrow> Inl e
      | Inr s \<Rightarrow>
          Inr (CoreAssignUniqueIdNode nid (varName idVariable)
                 (taskUniqueId (stageId taskId) (taskNumber taskId)) s))"
| "toVeloxQueryPlan c taskId (EnforceSingleRowNode nid src) =
     (case toVeloxQueryPlan c taskId src of
        Inl e \<Rightarrow> Inl e
      | Inr s \<Rightarrow> Inr (CoreEnforceSingleRowNode nid s))"
| "toVeloxQueryPlan c taskId (TableScanNode nid tableHandle outputVariables asg) =
     (case toRowType (exprConverter c) outputVariables [] of
        Inl e \<Rightarrow> Inl e
      | Inr rowType \<Rightarrow>
          (case emplaceColumns (exprConverter c)
                  (map (\<lambda>entry. (varName (fst entry), snd entry)) asg) [] of
             Inl e \<Rightarrow> Inl e
           | Inr columns \<Rightarrow>
               (case toConnectorTableHandle tableHandle (exprConverter c) columns of
                  Inl e \<Rightarrow> Inl e
                | Inr (connectorTableHandle, columns') \<Rightarrow>
                    Inr (CoreTableScanNode nid rowType connectorTableHandle columns'))))"
| "toVeloxQueryPlan c taskId (OtherNode other) = lowerOther c other"
| "toVeloxQueryPlan c taskId (RowNumberNode nid src v) =
     Inl (UnsupportedConstruct ''Unknown plan node type {}'')"
| "toVeloxQueryPlan c taskId (SemiJoinNode nid src fs v1 v2 v3) =
     Inl (UnsupportedConstruct ''Unknown plan node type {}'')"
| "toVeloxQueryPlan c taskId (OutputNode nid src vs) =
     Inl (UnsupportedConstruct ''Unknown plan node type {}'')"


definition toVeloxQueryPlan_Output ::
  "('b, 'o) VeloxQueryPlanConverterBase \<Rightarrow> PrestoTaskId \<Rightarrow> string \<Rightarrow> ('b, 'o) PlanNode \<Rightarrow>
   VariableReferenceExpression list \<Rightarrow> error + CorePlanNode" where
  "toVeloxQueryPlan_Output c taskId nid src outputVariables =
     (case toRowType (exprConverter c) outputVariables [] of
        Inl e \<Rightarrow> Inl e
      | Inr rowType \<Rightarrow>
          (case toVeloxQueryPlan c taskId src of
             Inl e \<Rightarrow> Inl e
           | Inr s \<Rightarrow> Inr (single nid rowType s)))"

section \<open>Fragment assembler\<close>

definition toStrategy :: "StageExecutionStrategy \<Rightarrow> error + ExecutionStrategy" where
  "toStrategy strategy =
     (case strategy of
        UNGROUPED_EXECUTION \<Rightarrow> Inr kUngrouped
      | FIXED_LIFESPAN_SCHEDULE_GROUPED_EXECUTION \<Rightarrow> Inr kGrouped
      | DYNAMIC_LIFESPAN_SCHEDULE_GROUPED_EXECUTION \<Rightarrow> Inr kGrouped
      | RECOVERABLE_GROUPED_EXECUTION \<Rightarrow>
          Inl (UnsupportedConstruct
            ''RECOVERABLE_GROUPED_EXECUTION Stage Execution Strategy is not supported''))"

fun variantKind :: "variant \<Rightarrow> TypeKind" where
  "variantKind (NullVariant k) = k"
| "variantKind (BooleanVariant _) = BOOLEAN"
| "variantKind (TinyintVariant _) = TINYINT"
| "variantKind (SmallintVariant _) = SMALLINT"
| "variantKind (IntegerVariant _) = INTEGER"
| "variantKind (BigintVariant _) = BIGINT"
| "variantKind (RealVariant _) = REAL"
| "variantKind (DoubleVariant _) = DOUBLE"
| "variantKind (VarcharVariant _) = VARCHAR"
| "variantKind (DateVariant _) = DATE"

fun isNull :: "variant \<Rightarrow> bool" where
  "isNull (NullVariant _) = True"
| "isNull _ = False"

text \<open>
  \<^verbatim>\<open>setCellFromVariant(data, 0, value)\<close> on a fresh vector of one row. The dispatch
  macro of the engine goes by the kind of the vector: it knows the scalar kinds and
  fails on the others, VARBINARY is refused by the translator itself, and
  \<^verbatim>\<open>value<T>()\<close> checks the kind of the constant.
\<close>

definition isScalarKind :: "TypeKind \<Rightarrow> bool" where
  "isScalarKind k =
     (k = BOOLEAN \<or> k = TINYINT \<or> k = SMALLINT \<or> k = INTEGER \<or> k = BIGINT \<or> k = REAL \<or>
      k = DOUBLE \<or> k = VARCHAR \<or> k = VARBINARY \<or> k = TIMESTAMP \<or> k = DATE)"

definition setCellFromVariant :: "VType \<Rightarrow> variant \<Rightarrow> error + VectorPtr" where
  "setCellFromVariant t v =
     (if isNull v then Inr (t, v)
      else if \<not> isScalarKind (kind t) then Inl (InvariantViolation ''not a scalar type! kind: {}'')
      else if kind t = VARBINARY then
        Inl (UnsupportedConstruct ''Return of VARBINARY data is not supported.'')
      else if variantKind v \<noteq> kind t then Inl (InvariantViolation ''wrong kind of variant'')
      else Inr (t, v))"

text \<open>
  The loop over the partitioning keys: the channel of each key and, for a constant key,
  its one-row vector.
\<close>

fun partitionChannels ::
  "TypedExpr list \<Rightarrow> VType \<Rightarrow> error + column_index_t list \<times> VectorPtr list" where
  "partitionChannels [] inputType = Inr ([], [])"
| "partitionChannels (expr # rest) inputType =
     (case exprToChannel expr inputType of
        Inl e \<Rightarrow> Inl e
      | Inr channel \<Rightarrow>
          (case (if channel = kConstantChannel then
                   (case expr of
                      ConstantTypedExpr t v \<Rightarrow>
                        (case setCellFromVariant t v of Inl e \<Rightarrow> Inl e | Inr vec \<Rightarrow> Inr [vec])
                    | _ \<Rightarrow> Inl (UndefinedBehavior ''dereference of a null constant expression''))
                 else Inr []) of
             Inl e \<Rightarrow> Inl e
           | Inr constValue \<Rightarrow>
               (case partitionChannels rest inputType of
                  Inl e \<Rightarrow> Inl e
                | Inr (keyChannels, constValues) \<Rightarrow>
                    Inr (channel # keyChannels, constValue @ constValues))))"

text \<open>\<^verbatim>\<open>*std::max_element(begin, end)\<close> on \<^verbatim>\<open>int\<close>, for a vector that is not empty.\<close>

definition maxElement :: "int32 list \<Rightarrow> int32" where
  "maxElement v = foldl (\<lambda>m a. if m <s a then a else m) (hd v) (tl v)"

definition toVeloxQueryPlan_Fragment ::
  "('b, 'o) VeloxQueryPlanConverterBase \<Rightarrow> ('b, 'o) PlanFragment \<Rightarrow> PrestoTaskId \<Rightarrow>
   error + CorePlanFragment" where
  "toVeloxQueryPlan_Fragment c fragment taskId =
     (let descriptor = stageExecutionDescriptor fragment in
      case toStrategy (stageExecutionStrategy descriptor) of
        Inl e \<Rightarrow> Inl e
      | Inr strategy \<Rightarrow>
     (let leafNodeIds = remdups (groupedExecutionScanNodes descriptor);
          planFragment = (\<lambda>node.
            \<lparr>planNode = node, executionStrategy = strategy,
             numSplitGroups = totalLifespans descriptor,
             groupedExecutionLeafNodeIds = leafNodeIds\<rparr>) in
      if strategy = kGrouped \<and> leafNodeIds = [] then
        Inl (InvariantViolation
          ''groupedExecutionScanNodes cannot be empty if stage execution strategy is grouped execution'')
      else
     (case root fragment of
        OutputNode nid src outputVariables \<Rightarrow>
          (case toVeloxQueryPlan_Output c taskId nid src outputVariables of
             Inl e \<Rightarrow> Inl e
           | Inr node \<Rightarrow> Inr (planFragment node))
      | _ \<Rightarrow>
     (let scheme = partitioningScheme fragment in
      case toTypedExprs (partitioningArguments scheme) (exprConverter c) of
        Inl e \<Rightarrow> Inl e
      | Inr partitioningKeys \<Rightarrow>
     (case toVeloxQueryPlan c taskId (root fragment) of
        Inl e \<Rightarrow> Inl e
      | Inr sourceNode \<Rightarrow>
     (let inputType = outputType sourceNode in
      case partitionChannels partitioningKeys inputType of
        Inl e \<Rightarrow> Inl e
      | Inr (keyChannels, constValues) \<Rightarrow>
     (case toRowType (exprConverter c) (outputLayout scheme) [] of
        Inl e \<Rightarrow> Inl e
      | Inr outType \<Rightarrow>
     (case partitioningHandle scheme of
        SystemPartitioningHandle partitioning fn \<Rightarrow>
          (case partitioning of
             SINGLE \<Rightarrow>
               if fn \<noteq> FunctionSINGLE then
                 Inl (InvariantViolation ''Unsupported partitioning function: {}'')
               else Inr (planFragment (single ''root'' outType sourceNode))
           | FIXED \<Rightarrow>
               (case fn of
                  ROUND_ROBIN \<Rightarrow>
                    (case bucketToPartition scheme of
                       None \<Rightarrow> Inl (UndefinedBehavior ''dereference of a null bucketToPartition'')
                     | Some buckets \<Rightarrow>
                         let numPartitions = length buckets in
                         if numPartitions = 1 then
                           Inr (planFragment (single ''root'' outType sourceNode))
                         else
                           Inr (planFragment
                             (CorePartitionedOutputNode ''root'' partitioningKeys
                                (int numPartitions) False (replicateNullsAndAny scheme)
                                RoundRobinPartitionFunctionSpec outType sourceNode)))
                | HASH \<Rightarrow>
                    (case bucketToPartition scheme of
                       None \<Rightarrow> Inl (UndefinedBehavior ''dereference of a null bucketToPartition'')
                     | Some buckets \<Rightarrow>
                         let numPartitions = length buckets in
                         if numPartitions = 1 then
                           Inr (planFragment (single ''root'' outType sourceNode))
                         else
                           Inr (planFragment
                             (CorePartitionedOutputNode ''root'' partitioningKeys
                                (int numPartitions) False (replicateNullsAndAny scheme)
                                (HashPartitionFunctionSpec inputType keyChannels constValues)
                                outType sourceNode)))
                | BROADCAST \<Rightarrow> Inr (planFragment (broadcast ''root'' 1 outType sourceNode))
                | _ \<Rightarrow> Inl (UnsupportedConstruct ''Unsupported partitioning function: {}''))
           | _ \<Rightarrow> Inl (InvariantViolation ''Unsupported kind of SystemPartitioning''))
      | HivePartitioningHandle bucketCount bucketFunctionType \<Rightarrow>
          (case bucketToPartition scheme of
             None \<Rightarrow> Inl (UndefinedBehavior ''dereference of a null bucketToPartition'')
           | Some buckets \<Rightarrow>
               if buckets = [] then
                 Inl (UndefinedBehavior ''max_element of an empty bucketToPartition'')
               else
                 let numPartitions = maxElement buckets + 1 in
                 if numPartitions = 1 then
                   Inr (planFragment (single ''root'' outType sourceNode))
                 else if bucketFunctionType \<noteq> HIVE_COMPATIBLE then
                   Inl (UserError ''Unsupported Hive bucket function type: {}'')
                 else
                   Inr (planFragment
                     (CorePartitionedOutputNode ''root'' partitioningKeys (sint numPartitions)
                        False (replicateNullsAndAny scheme)
                        (HivePartitionFunctionSpec bucketCount buckets keyChannels constValues)
                        outType sourceNode)))
      | OtherPartitioningHandle tag \<Rightarrow>
          Inl (UnsupportedConstruct ''Unsupported partitioning handle: {}'')))))))))"

section \<open>What a compiled filter accepts\<close>

text \<open>
  Modelled from the spec: the filter classes of the engine (\<^verbatim>\<open>velox/type/Filter.h\<close>) are
  not among the repository's files. The spec describes a filter as a single-value set, a
  range, a negated range, a negated value set, is-null, is-not-null, always-false or a
  disjunction of sub-filters. \<open>testNull\<close> says whether the filter accepts a null,
  \<open>testInt64\<close> whether it accepts an integer (\<open>None\<close> for a filter that is not a filter on
  integers). Integers compare as signed 64-bit values.
\<close>

fun testNull :: "Filter \<Rightarrow> bool" where
  "testNull AlwaysFalse = False"
| "testNull IsNull = True"
| "testNull IsNotNull = False"
| "testNull (BoolValue _ na) = na"
| "testNull (BigintRangeFilter r) = nullAllowed r"
| "testNull (BigintValues _ na) = na"
| "testNull (NegatedBigintValues _ na) = na"
| "testNull (NegatedBigintRange _ _ na) = na"
| "testNull (BigintMultiRange _ na) = na"
| "testNull (DoubleRange _ _ _ _ _ _ na) = na"
| "testNull (FloatRange _ _ _ _ _ _ na) = na"
| "testNull (BytesRangeFilter r) = bytesNullAllowed r"
| "testNull (BytesValues _ na) = na"
| "testNull (NegatedBytesValues _ na) = na"
| "testNull (NegatedBytesRange _ _ _ _ _ _ na) = na"
| "testNull (MultiRange _ na _) = na"

definition inRange :: "BigintRange \<Rightarrow> int64 \<Rightarrow> bool" where
  "inRange r v = (lower r \<le>s v \<and> v \<le>s upper r)"

fun testInt64 :: "Filter \<Rightarrow> int64 \<Rightarrow> bool option" where
  "testInt64 AlwaysFalse v = Some False"
| "testInt64 IsNull v = Some False"
| "testInt64 IsNotNull v = Some True"
| "testInt64 (BigintRangeFilter r) v = Some (inRange r v)"
| "testInt64 (BigintValues vs _) v = Some (v \<in> set vs)"
| "testInt64 (NegatedBigintValues vs _) v = Some (v \<notin> set vs)"
| "testInt64 (NegatedBigintRange lo hi _) v = Some (\<not> (lo \<le>s v \<and> v \<le>s hi))"
| "testInt64 (BigintMultiRange rs _) v = Some (list_ex (\<lambda>r. inRange r v) rs)"
| "testInt64 _ v = None"

section \<open>Wire-level reading of a domain\<close>

text \<open>
  A single-point range of the wire format: both bounds are inclusive and carry the same
  integer \<open>v\<close>.
\<close>

definition isSinglePoint :: "'b VeloxExprConverter \<Rightarrow> VType \<Rightarrow> 'b Range \<Rightarrow> int64 \<Rightarrow> bool" where
  "isSinglePoint x t rng v =
     (bound (low rng) = EXACTLY \<and> bound (high rng) = EXACTLY \<and>
      toInt64 (valueBlock (low rng)) x t = Inr v \<and> toInt64 (valueBlock (high rng)) x t = Inr v)"

text \<open>
  The naive evaluation of a domain on an integer: some range contains it. A low bound is
  exclusive when its marker is \<open>ABOVE\<close>, a high bound when its marker is \<open>BELOW\<close>; a
  side with no block is unbounded.
\<close>

definition lowContains :: "'b VeloxExprConverter \<Rightarrow> VType \<Rightarrow> 'b Marker \<Rightarrow> int64 \<Rightarrow> bool" where
  "lowContains x t m v =
     (case valueBlock m of
        None \<Rightarrow> True
      | Some b \<Rightarrow>
          (case toInt64 (Some b) x t of
             Inl _ \<Rightarrow> False
           | Inr lo \<Rightarrow> if bound m = ABOVE then lo <s v else lo \<le>s v))"

definition highContains :: "'b VeloxExprConverter \<Rightarrow> VType \<Rightarrow> 'b Marker \<Rightarrow> int64 \<Rightarrow> bool" where
  "highContains x t m v =
     (case valueBlock m of
        None \<Rightarrow> True
      | Some b \<Rightarrow>
          (case toInt64 (Some b) x t of
             Inl _ \<Rightarrow> False
           | Inr hi \<Rightarrow> if bound m = BELOW then v <s hi else v \<le>s hi))"

definition rangeContains :: "'b VeloxExprConverter \<Rightarrow> VType \<Rightarrow> 'b Range \<Rightarrow> int64 \<Rightarrow> bool" where
  "rangeContains x t rng v = (lowContains x t (low rng) v \<and> highContains x t (high rng) v)"

definition anyRangeMatches :: "'b VeloxExprConverter \<Rightarrow> VType \<Rightarrow> 'b Range list \<Rightarrow> int64 \<Rightarrow> bool" where
  "anyRangeMatches x t ranges v = list_ex (\<lambda>rng. rangeContains x t rng v) ranges"

text \<open>
  The inclusive interval a range denotes, over the unbounded integers, so that a bound at
  an extreme of \<^verbatim>\<open>int64_t\<close> cannot wrap around.
\<close>

definition lowEnd :: "'b VeloxExprConverter \<Rightarrow> VType \<Rightarrow> 'b Marker \<Rightarrow> int option" where
  "lowEnd x t m =
     (case valueBlock m of
        None \<Rightarrow> Some (- (2 ^ 63))
      | Some b \<Rightarrow>
          (case toInt64 (Some b) x t of
             Inl _ \<Rightarrow> None
           | Inr lo \<Rightarrow> Some (if bound m = ABOVE then sint lo + 1 else sint lo)))"

definition highEnd :: "'b VeloxExprConverter \<Rightarrow> VType \<Rightarrow> 'b Marker \<Rightarrow> int option" where
  "highEnd x t m =
     (case valueBlock m of
        None \<Rightarrow> Some (2 ^ 63 - 1)
      | Some b \<Rightarrow>
          (case toInt64 (Some b) x t of
             Inl _ \<Rightarrow> None
           | Inr hi \<Rightarrow> Some (if bound m = BELOW then sint hi - 1 else sint hi)))"

definition rangeInterval :: "'b VeloxExprConverter \<Rightarrow> VType \<Rightarrow> 'b Range \<Rightarrow> (int \<times> int) option" where
  "rangeInterval x t rng =
     (case lowEnd x t (low rng) of
        None \<Rightarrow> None
      | Some l \<Rightarrow> (case highEnd x t (high rng) of None \<Rightarrow> None | Some u \<Rightarrow> Some (l, u)))"

text \<open>
  A list of intervals tiles the \<^verbatim>\<open>int64_t\<close> values except for isolated points: the first
  interval starts at the minimum or one above it, each later interval starts two above
  the end of its predecessor, none is empty, and the last one ends at the maximum.
\<close>

fun tilesAbove :: "int \<Rightarrow> (int \<times> int) list \<Rightarrow> bool" where
  "tilesAbove prevUpper [] = (prevUpper = 2 ^ 63 - 1)"
| "tilesAbove prevUpper ((l, u) # rest) = (l = prevUpper + 2 \<and> l \<le> u \<and> tilesAbove u rest)"

definition tilesInt64 :: "(int \<times> int) list \<Rightarrow> bool" where
  "tilesInt64 ivs =
     (case ivs of
        [] \<Rightarrow> False
      | (l, u) # rest \<Rightarrow>
          (l = - (2 ^ 63) \<or> l = - (2 ^ 63) + 1) \<and> l \<le> u \<and> rest \<noteq> [] \<and> tilesAbove u rest)"

definition interval :: "BigintRange \<Rightarrow> int \<times> int" where
  "interval r = (sint (lower r), sint (upper r))"

text \<open>
  For a boolean domain: a range whose two bounds carry different booleans, and a range
  whose bounds can be read at all (a side with no block is marked open, a block reads as
  a boolean).
\<close>

fun isInvariantViolation :: "error + 'a \<Rightarrow> bool" where
  "isInvariantViolation (Inl (InvariantViolation _)) = True"
| "isInvariantViolation _ = False"

definition boolBoundsDiffer :: "'b VeloxExprConverter \<Rightarrow> VType \<Rightarrow> 'b Range \<Rightarrow> bool" where
  "boolBoundsDiffer x t rng =
     (case (toBoolean (valueBlock (low rng)) x t, toBoolean (valueBlock (high rng)) x t) of
        (Inr lowValue, Inr highValue) \<Rightarrow> lowValue \<noteq> highValue
      | _ \<Rightarrow> False)"

text \<open>A range whose two bounds both carry the boolean \<open>v\<close>.\<close>

definition boolBoundsAgree :: "'b VeloxExprConverter \<Rightarrow> VType \<Rightarrow> 'b Range \<Rightarrow> bool \<Rightarrow> bool" where
  "boolBoundsAgree x t rng v =
     (toBoolean (valueBlock (low rng)) x t = Inr v \<and> toBoolean (valueBlock (high rng)) x t = Inr v)"

definition readableBound :: "'b VeloxExprConverter \<Rightarrow> VType \<Rightarrow> Bound \<Rightarrow> 'b Marker \<Rightarrow> bool" where
  "readableBound x t open m =
     (case valueBlock m of
        None \<Rightarrow> bound m = open
      | Some b \<Rightarrow> (case toBoolean (Some b) x t of Inl _ \<Rightarrow> False | Inr _ \<Rightarrow> True))"

definition readableBoolRange :: "'b VeloxExprConverter \<Rightarrow> VType \<Rightarrow> 'b Range \<Rightarrow> bool" where
  "readableBoolRange x t rng = (readableBound x t ABOVE (low rng) \<and> readableBound x t BELOW (high rng))"

section \<open>Reading of a wire plan\<close>

text \<open>A failure of the kind \<open>UnsupportedConstruct\<close>.\<close>

fun isUnsupportedConstruct :: "error + 'a \<Rightarrow> bool" where
  "isUnsupportedConstruct (Inl (UnsupportedConstruct _)) = True"
| "isUnsupportedConstruct _ = False"

text \<open>
  The predicate is a call of NOT whose first argument is the flag; a call of NOT carries
  an argument (the translator reads the first argument of such a call without looking at
  their number).
\<close>

definition isNotOf :: "'b RowExpression \<Rightarrow> VariableReferenceExpression \<Rightarrow> bool" where
  "isNotOf pred flag =
     (case isNot pred of
        None \<Rightarrow> False
      | Some notCall \<Rightarrow> (case arguments notCall of [] \<Rightarrow> False | argument # _ \<Rightarrow> equal argument flag))"

definition notHasOperand :: "'b RowExpression \<Rightarrow> bool" where
  "notHasOperand pred =
     (case isNot pred of None \<Rightarrow> True | Some notCall \<Rightarrow> arguments notCall \<noteq> [])"

text \<open>The translation gives a hash join node itself.\<close>

fun isHashJoin :: "error + CorePlanNode \<Rightarrow> bool" where
  "isHashJoin (Inr (CoreHashJoinNode _ _ _ _ _ _ _ _ _)) = True"
| "isHashJoin _ = False"

text \<open>One field access for every column of the probe side, in order.\<close>

definition probeFields :: "VType \<Rightarrow> TypedExpr list" where
  "probeFields t =
     map (\<lambda>i. FieldAccessTypedExpr (children t ! i) (names t ! i)) [0..<length (names t)]"

text \<open>
  The number of partitions the fragment assembler computes for a scheme: one for the
  system single partitioning, the size of the bucket-to-partition map for the system
  hash and round-robin functions, the largest entry of the map plus one for hive
  bucketing.
\<close>

definition resolvedPartitionCount :: "'b PartitioningScheme \<Rightarrow> int option" where
  "resolvedPartitionCount scheme =
     (case partitioningHandle scheme of
        SystemPartitioningHandle partitioning fn \<Rightarrow>
          if partitioning = SINGLE \<and> fn = FunctionSINGLE then Some 1
          else if partitioning = FIXED \<and> (fn = HASH \<or> fn = ROUND_ROBIN) then
            map_option (\<lambda>buckets. int (length buckets)) (bucketToPartition scheme)
          else None
      | HivePartitioningHandle bucketCount bucketFunctionType \<Rightarrow>
          (case bucketToPartition scheme of
             None \<Rightarrow> None
           | Some buckets \<Rightarrow> if buckets = [] then None else Some (sint (maxElement buckets) + 1))
      | OtherPartitioningHandle tag \<Rightarrow> None)"

text \<open>
  The predicate of the filter is not the comparison the rewrite looks for: it is not a
  call of greater-than, or its left operand is not the row-number variable, or its right
  operand lowers to something else than a constant of type bigint. A comparison that
  does not have two operands, or whose right operand does not lower, is not covered.
\<close>

definition notRowNumberComparison ::
  "'b VeloxExprConverter \<Rightarrow> 'b RowExpression \<Rightarrow> VariableReferenceExpression \<Rightarrow> bool" where
  "notRowNumberComparison x pred rowNumberVar =
     (case isGreaterThan pred of
        None \<Rightarrow> True
      | Some gt \<Rightarrow>
          (case arguments gt of
             [argument0, argument1] \<Rightarrow>
               if equal argument0 rowNumberVar then
                 (case toVeloxExpr x argument1 of
                    Inl _ \<Rightarrow> False
                  | Inr (ConstantTypedExpr t v) \<Rightarrow> \<not> isBigint t
                  | Inr _ \<Rightarrow> True)
               else True
           | _ \<Rightarrow> False))"

section \<open>Concrete inputs\<close>

text \<open>
  A converter whose blocks are the constants themselves, and which knows the types
  \<^verbatim>\<open>bigint\<close> and \<^verbatim>\<open>boolean\<close>.
\<close>

definition exampleParser :: "string \<Rightarrow> error + VType" where
  "exampleParser s =
     (if s = ''bigint'' then Inr (ScalarType BIGINT)
      else if s = ''boolean'' then Inr (ScalarType BOOLEAN)
      else Inl (UnsupportedConstruct ''unknown type signature''))"

definition exampleVariable :: "VariableReferenceExpression \<Rightarrow> error + TypedExpr" where
  "exampleVariable v =
     (case exampleParser (varType v) of
        Inl e \<Rightarrow> Inl e
      | Inr t \<Rightarrow> Inr (FieldAccessTypedExpr t (varName v)))"

fun exampleExpr :: "variant RowExpression \<Rightarrow> error + TypedExpr" where
  "exampleExpr (VariableReference v) = exampleVariable v"
| "exampleExpr (ConstantExpression b typeString) =
     (case exampleParser typeString of
        Inl e \<Rightarrow> Inl e
      | Inr t \<Rightarrow> Inr (ConstantTypedExpr t b))"
| "exampleExpr (CallExpression displayName handle typeString args) =
     (case exampleParser typeString of
        Inl e \<Rightarrow> Inl e
      | Inr t \<Rightarrow> Inr (CallTypedExpr t [] displayName))"
| "exampleExpr _ = Inl (UnsupportedConstruct ''unsupported expression'')"

definition exampleConverter :: "variant VeloxExprConverter" where
  "exampleConverter =
     \<lparr>typeParser = exampleParser,
      getConstantValue = (\<lambda>t b. Inr b),
      toVeloxExpr = exampleExpr,
      toVeloxExprVariable = exampleVariable,
      tpchFromTableName = Inr\<rparr>"

definition point :: "variant \<Rightarrow> variant Range" where
  "point v = \<lparr>low = \<lparr>valueBlock = Some v, bound = EXACTLY\<rparr>,
              high = \<lparr>valueBlock = Some v, bound = EXACTLY\<rparr>\<rparr>"

definition twoPoints :: "variant Domain" where
  "twoPoints =
     \<lparr>domainValues = SortedRangeSet ''bigint'' [point (BigintVariant 3), point (BigintVariant 7)],
      domainNullAllowed = False\<rparr>"

definition tiledDomain :: "variant Domain" where
  "tiledDomain =
     \<lparr>domainValues = SortedRangeSet ''bigint''
        [\<lparr>low = \<lparr>valueBlock = None, bound = ABOVE\<rparr>,
          high = \<lparr>valueBlock = Some (BigintVariant 4), bound = EXACTLY\<rparr>\<rparr>,
         \<lparr>low = \<lparr>valueBlock = Some (BigintVariant 5), bound = ABOVE\<rparr>,
          high = \<lparr>valueBlock = Some (BigintVariant 11), bound = BELOW\<rparr>\<rparr>,
         \<lparr>low = \<lparr>valueBlock = Some (BigintVariant 12), bound = EXACTLY\<rparr>,
          high = \<lparr>valueBlock = None, bound = BELOW\<rparr>\<rparr>],
      domainNullAllowed = True\<rparr>"

definition boolDomain :: "bool \<Rightarrow> bool \<Rightarrow> variant Domain" where
  "boolDomain lowValue highValue =
     \<lparr>domainValues = SortedRangeSet ''boolean''
        [\<lparr>low = \<lparr>valueBlock = Some (BooleanVariant lowValue), bound = EXACTLY\<rparr>,
          high = \<lparr>valueBlock = Some (BooleanVariant highValue), bound = EXACTLY\<rparr>\<rparr>],
      domainNullAllowed = False\<rparr>"

text \<open>The boolean domain of the two ranges from FALSE to FALSE and from TRUE to TRUE.\<close>

definition boolPointsDomain :: "variant Domain" where
  "boolPointsDomain =
     \<lparr>domainValues = SortedRangeSet ''boolean''
        [\<lparr>low = \<lparr>valueBlock = Some (BooleanVariant False), bound = EXACTLY\<rparr>,
          high = \<lparr>valueBlock = Some (BooleanVariant False), bound = EXACTLY\<rparr>\<rparr>,
         \<lparr>low = \<lparr>valueBlock = Some (BooleanVariant True), bound = EXACTLY\<rparr>,
          high = \<lparr>valueBlock = Some (BooleanVariant True), bound = EXACTLY\<rparr>\<rparr>],
      domainNullAllowed = False\<rparr>"

text \<open>
  A converter base whose other plan nodes all lower to one leaf with the column
  \<^verbatim>\<open>a\<close>, and the task 5 of stage 3.
\<close>

definition leafNode :: CorePlanNode where
  "leafNode = CoreOtherNode ''values'' (RowType [''a''] [ScalarType BIGINT]) []"

definition exampleBase :: "(variant, unit) VeloxQueryPlanConverterBase" where
  "exampleBase = \<lparr>exprConverter = exampleConverter, lowerOther = (\<lambda>other. Inr leafNode)\<rparr>"

definition exampleTask :: PrestoTaskId where
  "exampleTask =
     \<lparr>queryId = ''query'', stageId = 3, stageExecutionId = 0, taskNumber = 5, attemptNumber = 0\<rparr>"

definition columnA :: VariableReferenceExpression where
  "columnA = VariableReferenceExpression ''a'' ''bigint''"

definition rowNumberColumn :: VariableReferenceExpression where
  "rowNumberColumn = VariableReferenceExpression ''row_number'' ''bigint''"

definition flagColumn :: VariableReferenceExpression where
  "flagColumn = VariableReferenceExpression ''flag'' ''boolean''"

definition exampleScheme :: "ConnectorPartitioningHandle \<Rightarrow> int32 list option \<Rightarrow> variant PartitioningScheme" where
  "exampleScheme handle buckets =
     \<lparr>partitioningHandle = handle, partitioningArguments = [], outputLayout = [columnA],
      replicateNullsAndAny = False, bucketToPartition = buckets\<rparr>"

text \<open>
  A local exchange with one source: round-robin repartitioning when the flag is set, a
  gathering exchange otherwise.
\<close>

definition exchangeOver :: "bool \<Rightarrow> (variant, unit) PlanNode \<Rightarrow> (variant, unit) PlanNode" where
  "exchangeOver roundRobin src =
     ExchangeNode ''exchange'' (if roundRobin then REPARTITION else GATHER) LOCAL
       (exampleScheme
          (if roundRobin then SystemPartitioningHandle FIXED ROUND_ROBIN
           else SystemPartitioningHandle SINGLE FunctionSINGLE) None)
       [src] [[columnA]] None"

definition builtIn :: "string \<Rightarrow> variant RowExpression list \<Rightarrow> variant RowExpression" where
  "builtIn name args =
     CallExpression name (BuiltInFunctionHandle \<lparr>signatureName = name, signatureKind = SCALAR\<rparr>)
       ''boolean'' args"

text \<open>
  The plan of OFFSET 5 LIMIT 10: the three flags say which of the exchanges under the
  projection, under the limit and under the filter are round-robin; the last argument is
  the right operand of the comparison.
\<close>

definition offsetLimitPlan ::
  "bool \<Rightarrow> bool \<Rightarrow> bool \<Rightarrow> variant RowExpression \<Rightarrow> (variant, unit) PlanNode" where
  "offsetLimitPlan r1 r2 r3 operand =
     ProjectNode ''project''
       (exchangeOver r1
          (LimitNode ''limit''
             (exchangeOver r2
                (FilterNode ''filter''
                   (exchangeOver r3 (RowNumberNode ''rowNumber'' (OtherNode ()) rowNumberColumn))
                   (builtIn ''presto.default.$operator$greater_than''
                      [VariableReference rowNumberColumn, operand])))
             10 FINAL))
       [(columnA, VariableReference columnA)]"

definition five :: "variant RowExpression" where
  "five = ConstantExpression (BigintVariant 5) ''bigint''"

definition semiJoinFilter :: "variant RowExpression \<Rightarrow> (variant, unit) PlanNode" where
  "semiJoinFilter pred =
     FilterNode ''filter''
       (SemiJoinNode ''semiJoin'' (OtherNode ()) (OtherNode ()) columnA columnA flagColumn) pred"

definition exampleFragment :: "ConnectorPartitioningHandle \<Rightarrow> int32 list \<Rightarrow> (variant, unit) PlanFragment" where
  "exampleFragment handle buckets =
     \<lparr>root = OtherNode (),
      partitioningScheme = exampleScheme handle (Some buckets),
      stageExecutionDescriptor =
        \<lparr>stageExecutionStrategy = UNGROUPED_EXECUTION, groupedExecutionScanNodes = [],
         totalLifespans = 1\<rparr>\<rparr>"

definition singleFragment :: CorePlanFragment where
  "singleFragment =
     \<lparr>planNode = single ''root'' (RowType [''a''] [ScalarType BIGINT]) leafNode,
      executionStrategy = kUngrouped, numSplitGroups = 1, groupedExecutionLeafNodeIds = []\<rparr>"

definition unpushedTable :: "variant TableHandle" where
  "unpushedTable =
     \<lparr>connectorId = ''hive'',
      connectorHandle = HiveTableHandle ''schema'' ''table'',
      connectorTableLayout = HiveTableLayout
        \<lparr>pushdownFilterEnabled = False, partitionColumns = [], domains = Some [],
         remainingPredicate = ConstantExpression (BooleanVariant True) ''boolean''\<rparr>\<rparr>"

section \<open>Properties of the filter compiler\<close>

lemma toInt64_Inr_block: "toInt64 block x t = Inr v \<Longrightarrow> block \<noteq> None"
  by (cases block) (simp_all add: toInt64_def readBlock_def)

lemma bigintRangeToFilter_point:
  "isSinglePoint x t rng v \<Longrightarrow>
   bigintRangeToFilter rng na x t = Inr \<lparr>lower = v, upper = v, nullAllowed = na\<rparr>"
  by (auto simp: isSinglePoint_def bigintRangeToFilter_def Let_def dest: toInt64_Inr_block)

lemma collect_points:
  "list_all2 (isSinglePoint x t) ranges vs \<Longrightarrow>
   collect (\<lambda>rng. bigintRangeToFilter rng na x t) ranges =
     Inr (map (\<lambda>v. \<lparr>lower = v, upper = v, nullAllowed = na\<rparr>) vs)"
  by (induction ranges vs rule: list_all2_induct) (simp_all add: bigintRangeToFilter_point)

lemma combine_points:
  "combineIntegerRanges (map (\<lambda>v. \<lparr>lower = v, upper = v, nullAllowed = na\<rparr>) vs) na' =
     BigintValues vs na'"
proof -
  have "list_all isSingleValue (map (\<lambda>v. \<lparr>lower = v, upper = v, nullAllowed = na\<rparr>) vs)"
    by (simp add: list_all_iff isSingleValue_def)
  moreover have "map lower (map (\<lambda>v. \<lparr>lower = v, upper = v, nullAllowed = na\<rparr>) vs) = vs"
    by (simp add: comp_def)
  ultimately show ?thesis
    by (simp only: combineIntegerRanges_def createBigintValues_def if_True)
qed

text \<open>
  C5. An integer-typed domain with more than one range, all of them single points
  \<open>vs\<close>, compiles to the value-set filter of \<open>vs\<close>: it accepts an integer exactly when
  it is one of \<open>vs\<close>, and accepts null exactly when the domain allows null.
\<close>

theorem C5_value_set:
  assumes "domainValues d = SortedRangeSet typeString ranges"
    and "stringToType x typeString = Inr t"
    and "isIntegerKind (kind t)"
    and "1 < length ranges"
    and "list_all2 (isSinglePoint x t) ranges vs"
  shows "\<exists>f. toFilter_Domain d x = Inr f \<and> f = createBigintValues vs (domainNullAllowed d) \<and>
             (\<forall>v. testInt64 f v = Some (v \<in> set vs)) \<and> testNull f = domainNullAllowed d"
proof -
  from assms(4) have ne: "ranges \<noteq> []" "length ranges \<noteq> 1" by auto
  have "toFilter_Domain d x = Inr (BigintValues vs (domainNullAllowed d))"
    using assms(1,2,3) ne
    by (simp add: toFilter_Domain_def Let_def collect_points [OF assms(5)] combine_points)
  then show ?thesis
    by (simp add: createBigintValues_def)
qed

theorem C5_value_set_witness:
  "toFilter_Domain twoPoints exampleConverter = Inr (BigintValues [3, 7] False) \<and>
   testInt64 (BigintValues [3, 7] False) 7 = Some True \<and>
   testInt64 (BigintValues [3, 7] False) 5 = Some False \<and>
   testNull (BigintValues [3, 7] False) = False"
proof -
  have t: "stringToType exampleConverter ''bigint'' = Inr (ScalarType BIGINT)"
    by (simp add: stringToType_def exampleConverter_def exampleParser_def)
  have p: "list_all2 (isSinglePoint exampleConverter (ScalarType BIGINT))
             [point (BigintVariant 3), point (BigintVariant 7)] [3, 7]"
    by (simp add: isSinglePoint_def point_def toInt64_def readBlock_def exampleConverter_def)
  have "\<exists>f. toFilter_Domain twoPoints exampleConverter = Inr f \<and>
          f = createBigintValues [3, 7] (domainNullAllowed twoPoints) \<and>
          (\<forall>v. testInt64 f v = Some (v \<in> set [3, 7])) \<and>
          testNull f = domainNullAllowed twoPoints"
    by (rule C5_value_set [OF _ t _ _ p]) (simp_all add: twoPoints_def isIntegerKind_def)
  then show ?thesis
    by (auto simp: twoPoints_def createBigintValues_def)
qed

text \<open>
  C9. A domain whose value set is an enumerated-equality set compiles without failing
  when the set has no entries: to is-null when the domain allows null, to is-not-null
  when it does not. With entries it fails with \<open>UnsupportedConstruct\<close>.
\<close>

theorem C9_equatable:
  "toFilter_Domain \<lparr>domainValues = EquatableValueSet typeString entries, domainNullAllowed = na\<rparr> x =
     (if entries = [] then (if na then Inr IsNull else Inr IsNotNull)
      else Inl (UnsupportedConstruct
        ''EquatableValueSet (with non-empty entries) to Velox filter conversion is not supported yet.''))"
  by (simp add: toFilter_Domain_def Let_def)

theorem C9_equatable_witness:
  "toFilter_Domain \<lparr>domainValues = EquatableValueSet ''bigint'' [], domainNullAllowed = True\<rparr>
     exampleConverter = Inr IsNull \<and>
   toFilter_Domain \<lparr>domainValues = EquatableValueSet ''bigint'' [], domainNullAllowed = False\<rparr>
     exampleConverter = Inr IsNotNull \<and>
   toFilter_Domain
     \<lparr>domainValues = EquatableValueSet ''bigint'' [BigintVariant 1], domainNullAllowed = True\<rparr>
     exampleConverter =
     Inl (UnsupportedConstruct
       ''EquatableValueSet (with non-empty entries) to Velox filter conversion is not supported yet.'')"
  using C9_equatable [of "''bigint''" "[]" True exampleConverter]
    C9_equatable [of "''bigint''" "[]" False exampleConverter]
    C9_equatable [of "''bigint''" "[BigintVariant 1]" True exampleConverter]
  by simp

subsection \<open>Signed 64-bit arithmetic without overflow\<close>

lemma sint_int64_min: "sint int64_min = - (2 ^ 63)"
  by (simp add: int64_min_def)

lemma sint_int64_max: "sint int64_max = 2 ^ 63 - 1"
  by (simp add: int64_max_def)

lemma sint_int64_bounds: "- (2 ^ 63) \<le> sint (a :: int64)" "sint (a :: int64) \<le> 2 ^ 63 - 1"
  using sint_ge [of a] sint_lt [of a] by simp_all

lemma sint_int64_add:
  assumes "- (2 ^ 63) \<le> sint a + sint b" and "sint a + sint b \<le> 2 ^ 63 - 1"
  shows "sint (a + b :: int64) = sint a + sint b"
proof -
  have "signed_take_bit 63 (sint a + sint b) = sint a + sint b"
    using assms by (intro signed_take_bit_int_eq_self) simp_all
  then show ?thesis by (simp add: sint_word_ariths)
qed

lemma sint_int64_diff:
  assumes "- (2 ^ 63) \<le> sint a - sint b" and "sint a - sint b \<le> 2 ^ 63 - 1"
  shows "sint (a - b :: int64) = sint a - sint b"
proof -
  have "signed_take_bit 63 (sint a - sint b) = sint a - sint b"
    using assms by (intro signed_take_bit_int_eq_self) simp_all
  then show ?thesis by (simp add: sint_word_ariths)
qed

lemma sint_int64_succ: "sint a \<le> 2 ^ 63 - 2 \<Longrightarrow> sint (a + 1 :: int64) = sint a + 1"
  using sint_int64_add [of a 1] sint_int64_bounds [of a] by simp

lemma sint_int64_plus2: "sint a \<le> 2 ^ 63 - 3 \<Longrightarrow> sint (a + 2 :: int64) = sint a + 2"
  using sint_int64_add [of a 2] sint_int64_bounds [of a] by simp

lemma sint_int64_pred: "- (2 ^ 63) + 1 \<le> sint a \<Longrightarrow> sint (a - 1 :: int64) = sint a - 1"
  using sint_int64_diff [of a 1] sint_int64_bounds [of a] by simp

lemma sint_int64_max_pred: "sint (int64_max - 1) = 2 ^ 63 - 2"
  by (simp add: int64_max_def)

lemma sint_int64_min_succ: "sint (int64_min + 1) = - (2 ^ 63) + 1"
  by (simp add: int64_min_def)

lemma int64_eq_iff: "(a :: int64) = b \<longleftrightarrow> sint a = sint b"
  by (rule word_eq_iff_signed)

subsection \<open>The negated-value-set path\<close>

lemma inRange_sint: "inRange r v \<longleftrightarrow> sint (lower r) \<le> sint v \<and> sint v \<le> sint (upper r)"
  by (simp add: inRange_def word_sle_eq)

lemma tilesAbove_le: "tilesAbove p ivs \<Longrightarrow> p \<le> 2 ^ 63 - 1"
proof (induction ivs arbitrary: p)
  case Nil
  then show ?case by simp
next
  case (Cons iv ivs)
  obtain l u where iv: "iv = (l, u)" by (cases iv)
  from Cons.prems iv have "l = p + 2" "l \<le> u" "tilesAbove u ivs" by simp_all
  with Cons.IH [of u] show ?case by simp
qed

lemma tilesAbove_Cons_ranges:
  assumes "tilesAbove (sint (pu :: int64)) (map interval (f # rest))"
  shows "sint (lower f) = sint pu + 2" "sint (lower f) \<le> sint (upper f)"
    "tilesAbove (sint (upper f)) (map interval rest)"
    "rest = [] \<Longrightarrow> upper f = int64_max"
    "rest \<noteq> [] \<Longrightarrow> sint (upper f) \<le> 2 ^ 63 - 3"
proof -
  from assms show a: "sint (lower f) = sint pu + 2" and b: "sint (lower f) \<le> sint (upper f)"
    and c: "tilesAbove (sint (upper f)) (map interval rest)"
    by (simp_all add: interval_def)
  show "upper f = int64_max" if "rest = []"
  proof (rule signed_word_eqI)
    from c that show "sint (upper f) = sint int64_max"
      by (simp add: sint_int64_max)
  qed
  show "sint (upper f) \<le> 2 ^ 63 - 3" if "rest \<noteq> []"
  proof -
    from that obtain g rest' where r: "rest = g # rest'" by (cases rest) auto
    with c have "sint (lower g) = sint (upper f) + 2" by (simp add: interval_def)
    with sint_int64_bounds(2) [of "lower g"] show ?thesis by simp
  qed
qed

lemma lower_eq_plus2:
  assumes "sint (lower f) = sint (pu :: int64) + 2"
  shows "lower f = pu + 2"
proof (rule signed_word_eqI)
  from assms sint_int64_bounds(2) [of "lower f"] have "sint pu \<le> 2 ^ 63 - 3" by simp
  then show "sint (lower f) = sint (pu + 2)"
    using assms by (simp add: sint_int64_plus2)
qed

lemma upper_not_max:
  assumes "sint (upper f) \<le> 2 ^ 63 - 3"
  shows "upper f \<noteq> int64_max" "upper f \<noteq> int64_max - 1" "sint (upper f + 1) = sint (upper f) + 1"
proof -
  show "upper f \<noteq> int64_max"
  proof
    assume "upper f = int64_max"
    then have "sint (upper f) = 2 ^ 63 - 1" by (simp only: sint_int64_max)
    with assms show False by simp
  qed
  show "upper f \<noteq> int64_max - 1"
  proof
    assume "upper f = int64_max - 1"
    then have "sint (upper f) = 2 ^ 63 - 2" by (simp only: sint_int64_max_pred)
    with assms show False by simp
  qed
  show "sint (upper f + 1) = sint (upper f) + 1"
    using assms by (intro sint_int64_succ) simp
qed

lemma negatedValuesLoop_tiles:
  assumes "tilesAbove (sint pu) (map interval rest)" and "rest \<noteq> []"
  shows "negatedValuesLoop pu rest rej = (True, True, rej @ map (\<lambda>r. upper r + 1) (butlast rest))"
  using assms
proof (induction rest arbitrary: pu rej)
  case Nil
  then show ?case by simp
next
  case (Cons f rest)
  note t = tilesAbove_Cons_ranges [OF Cons.prems(1)]
  have lo: "lower f = pu + 2" by (rule lower_eq_plus2 [OF t(1)])
  show ?case
  proof (cases "rest = []")
    case True
    with t(4) lo show ?thesis by simp
  next
    case False
    note nm = upper_not_max [OF t(5) [OF False]]
    have "negatedValuesLoop (upper f) rest (rej @ [upper f + 1]) =
            (True, True, (rej @ [upper f + 1]) @ map (\<lambda>r. upper r + 1) (butlast rest))"
      by (rule Cons.IH [OF t(3) False])
    then show ?thesis
      using lo nm(1,2) False by (simp add: Let_def)
  qed
qed

lemma below_not_in_rest:
  assumes "tilesAbove (sint (pu :: int64)) (map interval rest)" and "sint v < sint pu + 2"
  shows "\<not> list_ex (\<lambda>r. inRange r v) rest"
  using assms
proof (induction rest arbitrary: pu)
  case Nil
  then show ?case by simp
next
  case (Cons f rest)
  note t = tilesAbove_Cons_ranges [OF Cons.prems(1)]
  have "\<not> inRange f v"
    using t(1) Cons.prems(2) by (simp add: inRange_sint)
  moreover have "\<not> list_ex (\<lambda>r. inRange r v) rest"
    using t(1,2) Cons.prems(2) by (intro Cons.IH [OF t(3)]) simp
  ultimately show ?case by simp
qed

lemma below_not_rejected:
  assumes "tilesAbove (sint (pu :: int64)) (map interval rest)" and "sint v < sint pu + 2"
  shows "v \<notin> set (map (\<lambda>r. upper r + 1) (butlast rest))"
  using assms
proof (induction rest arbitrary: pu)
  case Nil
  then show ?case by simp
next
  case (Cons f rest)
  note t = tilesAbove_Cons_ranges [OF Cons.prems(1)]
  show ?case
  proof (cases "rest = []")
    case True
    then show ?thesis by simp
  next
    case False
    note nm = upper_not_max [OF t(5) [OF False]]
    have "v \<noteq> upper f + 1"
    proof
      assume "v = upper f + 1"
      then have "sint v = sint (upper f) + 1" by (simp only: nm(3))
      with t(1,2) Cons.prems(2) show False by simp
    qed
    moreover have "v \<notin> set (map (\<lambda>r. upper r + 1) (butlast rest))"
      using t(1,2) Cons.prems(2) by (intro Cons.IH [OF t(3)]) simp
    ultimately show ?thesis using False by simp
  qed
qed

lemma above_rejected_iff:
  assumes "tilesAbove (sint (pu :: int64)) (map interval rest)" and "sint pu + 2 \<le> sint v"
  shows "list_ex (\<lambda>r. inRange r v) rest \<longleftrightarrow> v \<notin> set (map (\<lambda>r. upper r + 1) (butlast rest))"
  using assms
proof (induction rest arbitrary: pu)
  case Nil
  from Nil.prems sint_int64_bounds(2) [of v] show ?case by simp
next
  case (Cons f rest)
  note t = tilesAbove_Cons_ranges [OF Cons.prems(1)]
  show ?case
  proof (cases "rest = []")
    case True
    then have "sint (upper f) = 2 ^ 63 - 1"
      using t(4) by (simp only: sint_int64_max)
    then have "inRange f v"
      using t(1) Cons.prems(2) sint_int64_bounds(2) [of v] by (simp add: inRange_sint)
    then show ?thesis using True by simp
  next
    case False
    note nm = upper_not_max [OF t(5) [OF False]]
    have eq_iff: "v = upper f + 1 \<longleftrightarrow> sint v = sint (upper f) + 1"
      by (simp add: int64_eq_iff nm(3))
    consider (inside) "sint v \<le> sint (upper f)" | (gap) "sint v = sint (upper f) + 1"
      | (above) "sint (upper f) + 2 \<le> sint v"
      by linarith
    then show ?thesis
    proof cases
      case inside
      then have "inRange f v"
        using t(1) Cons.prems(2) by (simp add: inRange_sint)
      moreover have "v \<notin> set (map (\<lambda>r. upper r + 1) (butlast rest))"
        using inside by (intro below_not_rejected [OF t(3)]) simp
      moreover have "v \<noteq> upper f + 1"
        using inside eq_iff by simp
      ultimately show ?thesis using False by simp
    next
      case gap
      then have "\<not> inRange f v" by (simp add: inRange_sint)
      moreover have "\<not> list_ex (\<lambda>r. inRange r v) rest"
        using gap by (intro below_not_in_rest [OF t(3)]) simp
      moreover have "v = upper f + 1"
        using gap eq_iff by simp
      ultimately show ?thesis using False by simp
    next
      case above
      then have "\<not> inRange f v" by (simp add: inRange_sint)
      moreover have "v \<noteq> upper f + 1"
        using above eq_iff by simp
      moreover note Cons.IH [OF t(3) above]
      ultimately show ?thesis using False by simp
    qed
  qed
qed

lemma all_single_accepts:
  assumes "list_all isSingleValue fs"
  shows "v \<in> set (map lower fs) \<longleftrightarrow> list_ex (\<lambda>r. inRange r v) fs"
  using assms
proof (induction fs)
  case Nil
  then show ?case by simp
next
  case (Cons f fs)
  then have "upper f = lower f" by (simp add: isSingleValue_def)
  then have "inRange f v \<longleftrightarrow> v = lower f"
    by (auto simp: inRange_sint int64_eq_iff)
  with Cons show ?case by auto
qed

lemma combineIntegerRanges_tiles:
  assumes "tilesInt64 (map interval fs)"
  shows "testInt64 (combineIntegerRanges fs na) v = Some (list_ex (\<lambda>r. inRange r v) fs)"
proof -
  from assms obtain f0 rest where fs: "fs = f0 # rest"
    by (cases fs) (simp_all add: tilesInt64_def)
  from assms fs have l0: "sint (lower f0) = - (2 ^ 63) \<or> sint (lower f0) = - (2 ^ 63) + 1"
    and lu0: "sint (lower f0) \<le> sint (upper f0)" and ne: "rest \<noteq> []"
    and tiles: "tilesAbove (sint (upper f0)) (map interval rest)"
    by (simp_all add: tilesInt64_def interval_def)
  from ne obtain f1 rest' where rest: "rest = f1 # rest'" by (cases rest) auto
  note t1 = tilesAbove_Cons_ranges [OF tiles [unfolded rest]]
  from t1(1) sint_int64_bounds(2) [of "lower f1"] have u0: "sint (upper f0) \<le> 2 ^ 63 - 3" by simp
  note nm = upper_not_max [OF u0]
  have gap_iff: "v = upper f0 + 1 \<longleftrightarrow> sint v = sint (upper f0) + 1"
    by (simp add: int64_eq_iff nm(3))
  have min_iff: "v = int64_min \<longleftrightarrow> sint v = - (2 ^ 63)"
    by (simp add: int64_eq_iff sint_int64_min)
  have low_iff: "lower f0 = int64_min + 1 \<longleftrightarrow> sint (lower f0) = - (2 ^ 63) + 1"
    by (simp add: int64_eq_iff sint_int64_min_succ)
  have no_bail: "\<not> int64_min + 1 <s lower (hd fs)"
    using l0 by (auto simp: fs word_sless_alt sint_int64_min_succ)
  show ?thesis
  proof (cases "list_all isSingleValue fs")
    case True
    then show ?thesis
      by (simp add: combineIntegerRanges_def createBigintValues_def all_single_accepts [OF True]
          del: set_map)
  next
    case single: False
    show ?thesis
    proof (cases "length fs = 2 \<and> lower (fs ! 0) = int64_min \<and> upper (fs ! 1) = int64_max")
      case True
      then have r': "rest' = []" and lmin: "sint (lower f0) = - (2 ^ 63)"
        and umax: "sint (upper f1) = 2 ^ 63 - 1"
        by (simp_all add: fs rest sint_int64_min sint_int64_max)
      have hi: "sint (lower f1 - 1) = sint (upper f0) + 1"
        using t1(1) u0 sint_int64_bounds(1) [of "upper f0"]
        by (subst sint_int64_pred) simp_all
      have "combineIntegerRanges fs na =
              NegatedBigintRange (upper (fs ! 0) + 1) (lower (fs ! 1) - 1) na"
        by (simp only: combineIntegerRanges_def if_not_P [OF single] if_P [OF True])
      then have "testInt64 (combineIntegerRanges fs na) v =
              Some (\<not> (upper f0 + 1 \<le>s v \<and> v \<le>s lower f1 - 1))"
        by (simp add: fs rest)
      also have "(\<not> (upper f0 + 1 \<le>s v \<and> v \<le>s lower f1 - 1)) \<longleftrightarrow> sint v \<noteq> sint (upper f0) + 1"
        by (auto simp: word_sle_eq nm(3) hi)
      also have "sint v \<noteq> sint (upper f0) + 1 \<longleftrightarrow> list_ex (\<lambda>r. inRange r v) fs"
        using lmin umax t1(1) sint_int64_bounds [of v]
        by (auto simp: fs rest r' inRange_sint)
      finally show ?thesis .
    next
      case False
      let ?below = "if lower f0 = int64_min + 1 then [int64_min] else []"
      let ?rejected = "(?below @ [upper f0 + 1]) @ map (\<lambda>r. upper r + 1) (butlast rest)"
      have loop: "negatedValuesLoop (upper f0) rest (?below @ [upper f0 + 1]) = (True, True, ?rejected)"
        by (rule negatedValuesLoop_tiles [OF tiles ne])
      have "combineIntegerRanges fs na =
              (case negatedValuesLoop (upper (hd fs)) (tl fs)
                      ((if lower (hd fs) = int64_min + 1 then [int64_min] else []) @
                       [upper (hd fs) + 1]) of
                 (allNegatedValues, foundMaximum, rejectedValues) \<Rightarrow>
                   if allNegatedValues \<and> foundMaximum then
                     createNegatedBigintValues rejectedValues na
                   else BigintMultiRange fs na)"
        by (simp only: combineIntegerRanges_def Let_def if_not_P [OF single] if_not_P [OF False]
            if_not_P [OF no_bail])
      also have "\<dots> = NegatedBigintValues ?rejected na"
        unfolding fs list.sel loop by (simp add: createNegatedBigintValues_def)
      finally have "combineIntegerRanges fs na = NegatedBigintValues ?rejected na" .
      then have "testInt64 (combineIntegerRanges fs na) v = Some (v \<notin> set ?rejected)"
        by simp
      also have "v \<notin> set ?rejected \<longleftrightarrow> list_ex (\<lambda>r. inRange r v) fs"
      proof -
        consider (inside) "sint v \<le> sint (upper f0)" | (gap) "sint v = sint (upper f0) + 1"
          | (above) "sint (upper f0) + 2 \<le> sint v"
          by linarith
        then show ?thesis
        proof cases
          case inside
          have a: "v \<notin> set (map (\<lambda>r. upper r + 1) (butlast rest))"
            using inside by (intro below_not_rejected [OF tiles]) simp
          have b: "\<not> list_ex (\<lambda>r. inRange r v) rest"
            using inside by (intro below_not_in_rest [OF tiles]) simp
          have c: "v \<noteq> upper f0 + 1"
            using inside gap_iff by simp
          have "v \<notin> set ?below \<longleftrightarrow> inRange f0 v"
            using l0 inside sint_int64_bounds(1) [of v]
            by (auto simp: low_iff min_iff inRange_sint)
          with a b c show ?thesis
            by (simp add: fs del: set_map)
        next
          case gap
          have b: "\<not> list_ex (\<lambda>r. inRange r v) rest"
            using gap by (intro below_not_in_rest [OF tiles]) simp
          have c: "v = upper f0 + 1"
            using gap gap_iff by simp
          have "\<not> inRange f0 v"
            using gap by (simp add: inRange_sint)
          with b c show ?thesis
            by (simp add: fs del: set_map)
        next
          case above
          note d = above_rejected_iff [OF tiles above]
          have c: "v \<noteq> upper f0 + 1"
            using above gap_iff by simp
          have e: "\<not> inRange f0 v"
            using above by (simp add: inRange_sint)
          have "v \<noteq> int64_min"
            using above sint_int64_bounds(1) [of "upper f0"] min_iff by simp
          then have "v \<notin> set ?below" by simp
          with c d e show ?thesis
            by (simp add: fs del: set_map)
        qed
      qed
      finally show ?thesis .
    qed
  qed
qed

lemma lowEnd_ge:
  assumes "lowEnd x t m = Some l"
  shows "- (2 ^ 63) \<le> l"
proof (cases "valueBlock m")
  case None
  with assms show ?thesis by (simp add: lowEnd_def)
next
  case (Some b)
  with assms obtain lo where "l = sint lo + 1 \<or> l = sint (lo :: int64)"
    by (auto simp: lowEnd_def split: sum.splits if_splits)
  with sint_int64_bounds(1) [of lo] show ?thesis by auto
qed

lemma highEnd_le:
  assumes "highEnd x t m = Some u"
  shows "u \<le> 2 ^ 63 - 1"
proof (cases "valueBlock m")
  case None
  with assms show ?thesis by (simp add: highEnd_def)
next
  case (Some b)
  with assms obtain hi where "u = sint hi - 1 \<or> u = sint (hi :: int64)"
    by (auto simp: highEnd_def split: sum.splits if_splits)
  with sint_int64_bounds(2) [of hi] show ?thesis by auto
qed

lemma low_bound_compiled:
  assumes "lowEnd x t (low rng) = Some l" and "l \<le> 2 ^ 63 - 1"
  shows "\<exists>lo0. (if valueBlock (low rng) = None then Inr int64_min
                 else toInt64 (valueBlock (low rng)) x t) = Inr lo0 \<and>
           sint (if valueBlock (low rng) \<noteq> None \<and> bound (low rng) = ABOVE then lo0 + 1 else lo0) = l \<and>
           (\<forall>v. lowContains x t (low rng) v \<longleftrightarrow> l \<le> sint v)"
proof (cases "valueBlock (low rng)")
  case None
  with assms show ?thesis
    using sint_int64_bounds(1) by (simp add: lowEnd_def lowContains_def sint_int64_min)
next
  case (Some b)
  with assms obtain lo where lo: "toInt64 (Some b) x t = Inr lo"
    and l: "l = (if bound (low rng) = ABOVE then sint lo + 1 else sint lo)"
    by (auto simp: lowEnd_def split: sum.splits)
  show ?thesis
  proof (cases "bound (low rng) = ABOVE")
    case True
    with l assms(2) have "sint (lo + 1) = sint lo + 1"
      by (intro sint_int64_succ) simp
    with Some lo l True show ?thesis
      by (auto simp: lowContains_def word_sless_alt)
  next
    case False
    with Some lo l show ?thesis
      by (auto simp: lowContains_def word_sle_eq)
  qed
qed

lemma high_bound_compiled:
  assumes "highEnd x t (high rng) = Some u" and "- (2 ^ 63) \<le> u"
  shows "\<exists>hi0. (if valueBlock (high rng) = None then Inr int64_max
                 else toInt64 (valueBlock (high rng)) x t) = Inr hi0 \<and>
           sint (if valueBlock (high rng) \<noteq> None \<and> bound (high rng) = BELOW then hi0 - 1 else hi0) = u \<and>
           (\<forall>v. highContains x t (high rng) v \<longleftrightarrow> sint v \<le> u)"
proof (cases "valueBlock (high rng)")
  case None
  with assms show ?thesis
    using sint_int64_bounds(2) by (simp add: highEnd_def highContains_def sint_int64_max)
next
  case (Some b)
  with assms obtain hi where hi: "toInt64 (Some b) x t = Inr hi"
    and u: "u = (if bound (high rng) = BELOW then sint hi - 1 else sint hi)"
    by (auto simp: highEnd_def split: sum.splits)
  show ?thesis
  proof (cases "bound (high rng) = BELOW")
    case True
    with u assms(2) have "sint (hi - 1) = sint hi - 1"
      by (intro sint_int64_pred) simp
    with Some hi u True show ?thesis
      by (auto simp: highContains_def word_sless_alt)
  next
    case False
    with Some hi u show ?thesis
      by (auto simp: highContains_def word_sle_eq)
  qed
qed

lemma bigintRangeToFilter_interval:
  assumes "rangeInterval x t rng = Some (l, u)" and "l \<le> u"
  shows "\<exists>f. bigintRangeToFilter rng na x t = Inr f \<and> interval f = (l, u) \<and>
             (\<forall>v. inRange f v \<longleftrightarrow> rangeContains x t rng v)"
proof -
  from assms(1) have le: "lowEnd x t (low rng) = Some l" and he: "highEnd x t (high rng) = Some u"
    by (auto simp: rangeInterval_def split: option.splits)
  from assms(2) highEnd_le [OF he] have "l \<le> 2 ^ 63 - 1" by simp
  from low_bound_compiled [OF le this] obtain lo0 where
    lo: "(if valueBlock (low rng) = None then Inr int64_min
          else toInt64 (valueBlock (low rng)) x t) = Inr lo0"
    and lo': "sint (if valueBlock (low rng) \<noteq> None \<and> bound (low rng) = ABOVE then lo0 + 1 else lo0) = l"
    and lc: "\<And>v. lowContains x t (low rng) v \<longleftrightarrow> l \<le> sint v"
    by blast
  from assms(2) lowEnd_ge [OF le] have "- (2 ^ 63) \<le> u" by simp
  from high_bound_compiled [OF he this] obtain hi0 where
    hi: "(if valueBlock (high rng) = None then Inr int64_max
          else toInt64 (valueBlock (high rng)) x t) = Inr hi0"
    and hi': "sint (if valueBlock (high rng) \<noteq> None \<and> bound (high rng) = BELOW then hi0 - 1 else hi0) = u"
    and hc: "\<And>v. highContains x t (high rng) v \<longleftrightarrow> sint v \<le> u"
    by blast
  let ?f = "\<lparr>lower = (if valueBlock (low rng) \<noteq> None \<and> bound (low rng) = ABOVE then lo0 + 1 else lo0),
             upper = (if valueBlock (high rng) \<noteq> None \<and> bound (high rng) = BELOW then hi0 - 1 else hi0),
             nullAllowed = na\<rparr>"
  have "bigintRangeToFilter rng na x t = Inr ?f"
    by (simp only: bigintRangeToFilter_def Let_def lo hi sum.case)
  moreover have "interval ?f = (l, u)"
    by (simp only: interval_def BigintRange.simps lo' hi')
  moreover have "inRange ?f v \<longleftrightarrow> rangeContains x t rng v" for v
    by (simp only: inRange_sint BigintRange.simps lo' hi' rangeContains_def lc hc)
  ultimately show ?thesis by blast
qed

lemma tilesAbove_nonempty: "tilesAbove p ivs \<Longrightarrow> iv \<in> set ivs \<Longrightarrow> fst iv \<le> snd iv"
  by (induction p ivs rule: tilesAbove.induct) auto

lemma tilesInt64_nonempty: "tilesInt64 ivs \<Longrightarrow> iv \<in> set ivs \<Longrightarrow> fst iv \<le> snd iv"
  by (cases ivs) (auto simp: tilesInt64_def dest: tilesAbove_nonempty)

lemma tilesInt64_length: "tilesInt64 ivs \<Longrightarrow> 1 < length ivs"
  by (cases ivs) (auto simp: tilesInt64_def)

lemma collect_intervals:
  assumes "list_all2 (\<lambda>rng iv. rangeInterval x t rng = Some iv) ranges ivs"
    and "\<And>iv. iv \<in> set ivs \<Longrightarrow> fst iv \<le> snd iv"
  shows "\<exists>fs. collect (\<lambda>rng. bigintRangeToFilter rng na x t) ranges = Inr fs \<and>
           map interval fs = ivs \<and>
           (\<forall>v. list_ex (\<lambda>r. inRange r v) fs \<longleftrightarrow> anyRangeMatches x t ranges v)"
  using assms
proof (induction ranges ivs rule: list_all2_induct)
  case Nil
  then show ?case by (simp add: anyRangeMatches_def)
next
  case (Cons rng ranges iv ivs)
  obtain l u where iv: "iv = (l, u)" by (cases iv)
  from Cons.prems [of iv] iv have "l \<le> u" by simp
  from bigintRangeToFilter_interval [OF Cons.hyps(1) [unfolded iv] this, of na]
  obtain f where f: "bigintRangeToFilter rng na x t = Inr f" "interval f = (l, u)"
    "\<And>v. inRange f v \<longleftrightarrow> rangeContains x t rng v"
    by blast
  from Cons.IH Cons.prems obtain fs where
    fs: "collect (\<lambda>rng. bigintRangeToFilter rng na x t) ranges = Inr fs" "map interval fs = ivs"
    "\<And>v. list_ex (\<lambda>r. inRange r v) fs \<longleftrightarrow> anyRangeMatches x t ranges v"
    by auto
  show ?case
    using f fs iv by (simp add: anyRangeMatches_def)
qed

lemma example_types:
  "stringToType exampleConverter ''bigint'' = Inr (ScalarType BIGINT)"
  "stringToType exampleConverter ''boolean'' = Inr (ScalarType BOOLEAN)"
  by (simp_all add: stringToType_def exampleConverter_def exampleParser_def)

lemma example_toInt64:
  "toInt64 (Some (BigintVariant v)) exampleConverter t = Inr v"
  by (simp add: toInt64_def readBlock_def exampleConverter_def)

lemma example_toBoolean:
  "toBoolean (Some (BooleanVariant v)) exampleConverter t = Inr v"
  by (simp add: toBoolean_def readBlock_def exampleConverter_def)

text \<open>
  C6. An integer-typed domain whose ranges tile the \<^verbatim>\<open>int64_t\<close> values except for
  isolated rejected points, the last range ending at the maximum, compiles to a filter
  that accepts an integer exactly when some range of the domain contains it. The filter
  is the negated value set of the rejected points; for two ranges from the minimum to
  the maximum it is the negated range over the single gap, and it is the value set when
  every range is a single point.
\<close>

theorem C6_negated_values:
  assumes "domainValues d = SortedRangeSet typeString ranges"
    and "stringToType x typeString = Inr t"
    and "isIntegerKind (kind t)"
    and "list_all2 (\<lambda>rng iv. rangeInterval x t rng = Some iv) ranges ivs"
    and "tilesInt64 ivs"
  shows "\<exists>f. toFilter_Domain d x = Inr f \<and>
             (\<forall>v. testInt64 f v = Some (anyRangeMatches x t ranges v))"
proof -
  from collect_intervals [OF assms(4) tilesInt64_nonempty [OF assms(5)], of "domainNullAllowed d"]
  obtain fs where
    fs: "collect (\<lambda>rng. bigintRangeToFilter rng (domainNullAllowed d) x t) ranges = Inr fs"
    "map interval fs = ivs"
    "\<And>v. list_ex (\<lambda>r. inRange r v) fs \<longleftrightarrow> anyRangeMatches x t ranges v"
    by blast
  from assms(4) have "length ranges = length ivs" by (rule list_all2_lengthD)
  with tilesInt64_length [OF assms(5)] have ne: "ranges \<noteq> []" "length ranges \<noteq> 1" by auto
  have "toFilter_Domain d x = Inr (combineIntegerRanges fs (domainNullAllowed d))"
    using assms(1,2,3) ne fs(1) by (simp add: toFilter_Domain_def Let_def)
  moreover have "testInt64 (combineIntegerRanges fs (domainNullAllowed d)) v =
                   Some (anyRangeMatches x t ranges v)" for v
    using combineIntegerRanges_tiles [of fs "domainNullAllowed d" v] assms(5) fs(2,3) by simp
  ultimately show ?thesis by blast
qed

theorem C6_negated_values_witness:
  "\<exists>f. toFilter_Domain tiledDomain exampleConverter = Inr f \<and>
        testInt64 f 4 = Some True \<and> testInt64 f 5 = Some False \<and> testInt64 f 6 = Some True \<and>
        testInt64 f 10 = Some True \<and> testInt64 f 11 = Some False \<and> testInt64 f 12 = Some True \<and>
        testInt64 f int64_min = Some True \<and> testInt64 f int64_max = Some True"
proof -
  let ?ranges =
    "[\<lparr>low = \<lparr>valueBlock = None, bound = ABOVE\<rparr>,
       high = \<lparr>valueBlock = Some (BigintVariant 4), bound = EXACTLY\<rparr>\<rparr>,
      \<lparr>low = \<lparr>valueBlock = Some (BigintVariant 5), bound = ABOVE\<rparr>,
       high = \<lparr>valueBlock = Some (BigintVariant 11), bound = BELOW\<rparr>\<rparr>,
      \<lparr>low = \<lparr>valueBlock = Some (BigintVariant 12), bound = EXACTLY\<rparr>,
       high = \<lparr>valueBlock = None, bound = BELOW\<rparr>\<rparr>]"
  let ?ivs = "[(- (2 ^ 63), 4), (6, 10), (12, 2 ^ 63 - 1)] :: (int \<times> int) list"
  have d: "domainValues tiledDomain = SortedRangeSet ''bigint'' ?ranges"
    by (simp add: tiledDomain_def)
  have k: "isIntegerKind (kind (ScalarType BIGINT))"
    by (simp add: isIntegerKind_def)
  have i: "list_all2 (\<lambda>rng iv. rangeInterval exampleConverter (ScalarType BIGINT) rng = Some iv)
             ?ranges ?ivs"
    by (simp add: rangeInterval_def lowEnd_def highEnd_def example_toInt64)
  have t: "tilesInt64 ?ivs"
    by (simp add: tilesInt64_def)
  from C6_negated_values [OF d example_types(1) k i t] obtain f where
    f: "toFilter_Domain tiledDomain exampleConverter = Inr f"
    "\<And>v. testInt64 f v = Some (anyRangeMatches exampleConverter (ScalarType BIGINT) ?ranges v)"
    by blast
  have "testInt64 f 4 = Some True" "testInt64 f 5 = Some False" "testInt64 f 6 = Some True"
    "testInt64 f 10 = Some True" "testInt64 f 11 = Some False" "testInt64 f 12 = Some True"
    "testInt64 f int64_min = Some True" "testInt64 f int64_max = Some True"
    unfolding f(2)
    by (simp_all add: anyRangeMatches_def rangeContains_def lowContains_def highContains_def
        example_toInt64 int64_min_def int64_max_def word_sle_eq word_sless_alt)
  with f(1) show ?thesis by blast
qed

subsection \<open>Boolean domains\<close>

lemma isInvariantViolation_iff:
  "isInvariantViolation r \<longleftrightarrow> (\<exists>msg. r = Inl (InvariantViolation msg))"
  by (cases r rule: isInvariantViolation.cases) simp_all

lemma toBoolean_Inr_block: "toBoolean block x t = Inr v \<Longrightarrow> block \<noteq> None"
  by (cases block) (simp_all add: toBoolean_def readBlock_def)

lemma boolBoundsDiffer_low:
  "boolBoundsDiffer x t rng \<Longrightarrow> valueBlock (low rng) \<noteq> None"
  by (auto simp: boolBoundsDiffer_def split: sum.splits dest: toBoolean_Inr_block)

lemma boolBoundsDiffer_fails:
  assumes "boolBoundsDiffer x t rng"
  shows "boolRangeToFilter rng na x t = Inl (InvariantViolation
     ''Boolean range should not be [FALSE, TRUE] after coordinator optimization.'')"
proof -
  from assms obtain lo hi where lo: "toBoolean (valueBlock (low rng)) x t = Inr lo"
    and hi: "toBoolean (valueBlock (high rng)) x t = Inr hi" and ne: "lo \<noteq> hi"
    by (auto simp: boolBoundsDiffer_def split: sum.splits)
  have "valueBlock (low rng) \<noteq> None" "valueBlock (high rng) \<noteq> None"
    using lo hi by (auto dest: toBoolean_Inr_block)
  then show ?thesis
    using lo hi ne by (simp add: boolRangeToFilter_def Let_def)
qed

lemma readable_boolRange:
  assumes "readableBoolRange x t rng"
  shows "isInvariantViolation (boolRangeToFilter rng na x t) \<or> (\<exists>f. boolRangeToFilter rng na x t = Inr f)"
proof (cases "valueBlock (low rng)")
  case None
  note lowNone = None
  then have lb: "bound (low rng) = ABOVE"
    using assms by (simp add: readableBoolRange_def readableBound_def)
  show ?thesis
  proof (cases "valueBlock (high rng)")
    case None
    then have "bound (high rng) = BELOW"
      using assms by (simp add: readableBoolRange_def readableBound_def)
    then show ?thesis
      using lowNone None lb by (simp add: boolRangeToFilter_def Let_def)
  next
    case (Some b)
    then obtain v where "toBoolean (valueBlock (high rng)) x t = Inr v"
      using assms by (auto simp: readableBoolRange_def readableBound_def split: sum.splits)
    then show ?thesis
      using lowNone Some lb by (simp add: boolRangeToFilter_def Let_def)
  qed
next
  case (Some a)
  note lowSome = Some
  then obtain lv where lv: "toBoolean (valueBlock (low rng)) x t = Inr lv"
    using assms by (auto simp: readableBoolRange_def readableBound_def split: sum.splits)
  show ?thesis
  proof (cases "valueBlock (high rng)")
    case None
    then have "bound (high rng) = BELOW"
      using assms by (simp add: readableBoolRange_def readableBound_def)
    then show ?thesis
      using lowSome None lv by (simp add: boolRangeToFilter_def Let_def)
  next
    case (Some b)
    then obtain v where "toBoolean (valueBlock (high rng)) x t = Inr v"
      using assms by (auto simp: readableBoolRange_def readableBound_def split: sum.splits)
    then show ?thesis
      using lowSome Some lv by (simp add: boolRangeToFilter_def Let_def)
  qed
qed

lemma boolFilterLoop_fails:
  assumes "list_all (readableBoolRange x t) ranges" and "list_ex (boolBoundsDiffer x t) ranges"
  shows "isInvariantViolation (boolFilterLoop ranges boolFilter na x t)"
  using assms
proof (induction ranges arbitrary: boolFilter)
  case Nil
  then show ?case by simp
next
  case (Cons rng rest)
  show ?case
  proof (cases "boolBoundsDiffer x t rng")
    case True
    then show ?thesis by (simp add: boolBoundsDiffer_fails)
  next
    case False
    with Cons.prems have rest: "list_all (readableBoolRange x t) rest" "list_ex (boolBoundsDiffer x t) rest"
      and r: "readableBoolRange x t rng" by simp_all
    from readable_boolRange [OF r, of na] show ?thesis
    proof
      assume "isInvariantViolation (boolRangeToFilter rng na x t)"
      then show ?thesis by (auto simp: isInvariantViolation_iff)
    next
      assume "\<exists>f. boolRangeToFilter rng na x t = Inr f"
      then obtain f where f: "boolRangeToFilter rng na x t = Inr f" ..
      show ?thesis
        using f Cons.IH [OF rest] by simp
    qed
  qed
qed

text \<open>
  C8, as the code has it. A double-bounded boolean range does not fail by itself: the
  range from TRUE to TRUE is how an equality arrives, and it compiles to the filter of
  that value.
\<close>

theorem C8_double_bounded_counterexample:
  "valueBlock (low (hd [\<lparr>low = \<lparr>valueBlock = Some (BooleanVariant True), bound = EXACTLY\<rparr>,
                         high = \<lparr>valueBlock = Some (BooleanVariant True), bound = EXACTLY\<rparr>\<rparr>]))
     = Some (BooleanVariant True) \<and>
   toFilter_Domain (boolDomain True True) exampleConverter = Inr (BoolValue True False)"
  by (simp add: boolDomain_def toFilter_Domain_def Let_def example_types toFilter_Range_def
      isIntegerKind_def boolRangeToFilter_def example_toBoolean)

lemma boolBoundsAgree_compiles:
  assumes "boolBoundsAgree x t rng v"
  shows "boolRangeToFilter rng na x t = Inr (BoolValue v na)"
proof -
  from assms have lo: "toBoolean (valueBlock (low rng)) x t = Inr v"
    and hi: "toBoolean (valueBlock (high rng)) x t = Inr v"
    by (simp_all add: boolBoundsAgree_def)
  have "valueBlock (low rng) \<noteq> None" "valueBlock (high rng) \<noteq> None"
    using lo hi by (auto dest: toBoolean_Inr_block)
  then show ?thesis
    using lo hi by (simp add: boolRangeToFilter_def Let_def)
qed

lemma boolean_failing_half:
  assumes "domainValues d = SortedRangeSet typeString ranges"
    and "stringToType x typeString = Inr t"
    and "kind t = BOOLEAN"
    and "list_all (readableBoolRange x t) ranges"
    and "list_ex (boolBoundsDiffer x t) ranges"
  shows "isInvariantViolation (toFilter_Domain d x)"
proof -
  have k: "\<not> isIntegerKind (kind t)" "kind t \<noteq> VARCHAR" "kind t \<noteq> DOUBLE"
    using assms(3) by (simp_all add: isIntegerKind_def)
  from assms(5) have ne: "ranges \<noteq> []" by auto
  consider (one) "length ranges = 1" | (two) "length ranges = 2" | (more) "length ranges \<noteq> 1" "length ranges \<noteq> 2"
    by blast
  then show ?thesis
  proof cases
    case one
    then obtain rng where rs: "ranges = [rng]"
      by (cases ranges) simp_all
    with assms(5) have bad: "boolBoundsDiffer x t rng" by simp
    then have "valueBlock (low rng) \<noteq> None"
      by (rule boolBoundsDiffer_low)
    then show ?thesis
      using assms(1,2,3) k rs
      by (simp add: toFilter_Domain_def Let_def toFilter_Range_def boolBoundsDiffer_fails [OF bad])
  next
    case two
    have "isInvariantViolation (boolFilterLoop ranges None (domainNullAllowed d) x t)"
      by (rule boolFilterLoop_fails [OF assms(4,5)])
    then obtain msg where "boolFilterLoop ranges None (domainNullAllowed d) x t = Inl (InvariantViolation msg)"
      by (auto simp: isInvariantViolation_iff)
    then show ?thesis
      using assms(1,2,3) k ne two
      by (simp add: toFilter_Domain_def Let_def)
  next
    case more
    then show ?thesis
      using assms(1,2,3) k ne
      by (simp add: toFilter_Domain_def Let_def)
  qed
qed

lemma boolean_single_range:
  assumes "domainValues d = SortedRangeSet typeString [rng]"
    and "stringToType x typeString = Inr t"
    and "kind t = BOOLEAN"
    and "boolBoundsAgree x t rng v"
  shows "toFilter_Domain d x = Inr (BoolValue v (domainNullAllowed d))"
proof -
  have k: "\<not> isIntegerKind (kind t)" "kind t \<noteq> VARCHAR" "kind t \<noteq> DOUBLE"
    using assms(3) by (simp_all add: isIntegerKind_def)
  have "valueBlock (low rng) \<noteq> None"
    using assms(4) by (auto simp: boolBoundsAgree_def dest: toBoolean_Inr_block)
  then show ?thesis
    using assms(1,2,3) k
    by (simp add: toFilter_Domain_def Let_def toFilter_Range_def
        boolBoundsAgree_compiles [OF assms(4)])
qed

lemma boolean_two_points:
  assumes "domainValues d = SortedRangeSet typeString [r1, r2]"
    and "stringToType x typeString = Inr t"
    and "kind t = BOOLEAN"
    and "boolBoundsAgree x t r1 v1"
    and "boolBoundsAgree x t r2 v2"
  shows "isInvariantViolation (toFilter_Domain d x)"
proof -
  have k: "\<not> isIntegerKind (kind t)" "kind t \<noteq> VARCHAR" "kind t \<noteq> DOUBLE"
    using assms(3) by (simp_all add: isIntegerKind_def)
  show ?thesis
    using assms(1,2,3) k
    by (simp add: toFilter_Domain_def Let_def boolBoundsAgree_compiles [OF assms(4)]
        boolBoundsAgree_compiles [OF assms(5)])
qed

text \<open>
  C8, amended. For a boolean-typed domain: when the bounds of its ranges can be read and
  one of its ranges is double-bounded with a low and a high value that differ, the
  compiler fails with \<open>InvariantViolation\<close>. A double-bounded range whose two values are
  equal is accepted as a range and compiles to the bool-value filter of that value; a
  domain made of that range alone compiles to that filter, and a domain made of two such
  ranges fails with \<open>InvariantViolation\<close>, since only one of the two ranges of a boolean
  domain may give a bool-value filter.
\<close>

theorem C8_amended:
  assumes "domainValues d = SortedRangeSet typeString ranges"
    and "stringToType x typeString = Inr t"
    and "kind t = BOOLEAN"
  shows "(list_all (readableBoolRange x t) ranges \<and> list_ex (boolBoundsDiffer x t) ranges \<longrightarrow>
            isInvariantViolation (toFilter_Domain d x)) \<and>
         (\<forall>rng v. boolBoundsAgree x t rng v \<longrightarrow>
            boolRangeToFilter rng (domainNullAllowed d) x t =
              Inr (BoolValue v (domainNullAllowed d))) \<and>
         (\<forall>rng v. ranges = [rng] \<and> boolBoundsAgree x t rng v \<longrightarrow>
            toFilter_Domain d x = Inr (BoolValue v (domainNullAllowed d))) \<and>
         (\<forall>r1 r2 v1 v2. ranges = [r1, r2] \<and> boolBoundsAgree x t r1 v1 \<and> boolBoundsAgree x t r2 v2 \<longrightarrow>
            isInvariantViolation (toFilter_Domain d x))"
proof (intro conjI allI impI)
  assume "list_all (readableBoolRange x t) ranges \<and> list_ex (boolBoundsDiffer x t) ranges"
  then show "isInvariantViolation (toFilter_Domain d x)"
    using boolean_failing_half [OF assms] by simp
next
  fix rng v
  assume "boolBoundsAgree x t rng v"
  then show "boolRangeToFilter rng (domainNullAllowed d) x t = Inr (BoolValue v (domainNullAllowed d))"
    by (rule boolBoundsAgree_compiles)
next
  fix rng v
  assume "ranges = [rng] \<and> boolBoundsAgree x t rng v"
  then have "domainValues d = SortedRangeSet typeString [rng]" and "boolBoundsAgree x t rng v"
    using assms(1) by simp_all
  then show "toFilter_Domain d x = Inr (BoolValue v (domainNullAllowed d))"
    by (rule boolean_single_range [OF _ assms(2,3)])
next
  fix r1 r2 v1 v2
  assume "ranges = [r1, r2] \<and> boolBoundsAgree x t r1 v1 \<and> boolBoundsAgree x t r2 v2"
  then have "domainValues d = SortedRangeSet typeString [r1, r2]"
    and "boolBoundsAgree x t r1 v1" and "boolBoundsAgree x t r2 v2"
    using assms(1) by simp_all
  then show "isInvariantViolation (toFilter_Domain d x)"
    by (rule boolean_two_points [OF _ assms(2,3)])
qed

theorem C8_amended_witness:
  "toFilter_Domain (boolDomain False True) exampleConverter =
     Inl (InvariantViolation
       ''Boolean range should not be [FALSE, TRUE] after coordinator optimization.'') \<and>
   isInvariantViolation (toFilter_Domain (boolDomain False True) exampleConverter) \<and>
   boolRangeToFilter
     \<lparr>low = \<lparr>valueBlock = Some (BooleanVariant True), bound = EXACTLY\<rparr>,
      high = \<lparr>valueBlock = Some (BooleanVariant True), bound = EXACTLY\<rparr>\<rparr>
     False exampleConverter (ScalarType BOOLEAN) = Inr (BoolValue True False) \<and>
   toFilter_Domain (boolDomain True True) exampleConverter = Inr (BoolValue True False) \<and>
   isInvariantViolation (toFilter_Domain boolPointsDomain exampleConverter) \<and>
   toFilter_Domain boolPointsDomain exampleConverter =
     Inl (InvariantViolation ''VELOX_CHECK_NULL(boolFilter)'')"
proof -
  let ?range = "\<lambda>lowValue highValue.
                  \<lparr>low = \<lparr>valueBlock = Some (BooleanVariant lowValue), bound = EXACTLY\<rparr>,
                   high = \<lparr>valueBlock = Some (BooleanVariant highValue), bound = EXACTLY\<rparr>\<rparr>"
  have d: "domainValues (boolDomain lowValue highValue) =
             SortedRangeSet ''boolean'' [?range lowValue highValue]" for lowValue highValue
    by (simp add: boolDomain_def)
  have p: "domainValues boolPointsDomain =
             SortedRangeSet ''boolean'' [?range False False, ?range True True]"
    by (simp add: boolPointsDomain_def)
  have k: "kind (ScalarType BOOLEAN) = BOOLEAN"
    by simp
  have na: "domainNullAllowed (boolDomain lowValue highValue) = False" for lowValue highValue
    by (simp add: boolDomain_def)
  have r: "list_all (readableBoolRange exampleConverter (ScalarType BOOLEAN)) [?range False True]"
    by (simp add: readableBoolRange_def readableBound_def example_toBoolean)
  have b: "list_ex (boolBoundsDiffer exampleConverter (ScalarType BOOLEAN)) [?range False True]"
    by (simp add: boolBoundsDiffer_def example_toBoolean)
  have a: "boolBoundsAgree exampleConverter (ScalarType BOOLEAN) (?range v v) v" for v
    by (simp add: boolBoundsAgree_def example_toBoolean)
  note differ = C8_amended [OF d example_types(2) k, of False True]
  note agree = C8_amended [OF d example_types(2) k, of True True]
  note points = C8_amended [OF p example_types(2) k]
  have "isInvariantViolation (toFilter_Domain (boolDomain False True) exampleConverter)"
    using differ r b by blast
  moreover have "boolRangeToFilter (?range True True) False exampleConverter (ScalarType BOOLEAN) =
                   Inr (BoolValue True False)"
    using agree a [of True] unfolding na by blast
  moreover have "toFilter_Domain (boolDomain True True) exampleConverter = Inr (BoolValue True False)"
    using agree a [of True] unfolding na by blast
  moreover have "isInvariantViolation (toFilter_Domain boolPointsDomain exampleConverter)"
    using points a [of False] a [of True] by blast
  moreover have "toFilter_Domain (boolDomain False True) exampleConverter =
     Inl (InvariantViolation
       ''Boolean range should not be [FALSE, TRUE] after coordinator optimization.'')"
    by (simp add: boolDomain_def toFilter_Domain_def Let_def example_types toFilter_Range_def
        isIntegerKind_def boolRangeToFilter_def example_toBoolean)
  moreover have "toFilter_Domain boolPointsDomain exampleConverter =
     Inl (InvariantViolation ''VELOX_CHECK_NULL(boolFilter)'')"
    by (simp add: boolPointsDomain_def toFilter_Domain_def Let_def example_types
        isIntegerKind_def boolRangeToFilter_def example_toBoolean)
  ultimately show ?thesis by simp
qed

section \<open>Properties of the plan translator\<close>

lemma example_simps:
  "exprConverter exampleBase = exampleConverter"
  "lowerOther exampleBase other = Inr leafNode"
  "toVeloxExpr exampleConverter = exampleExpr"
  "toVeloxExprVariable exampleConverter = exampleVariable"
  "typeParser exampleConverter = exampleParser"
  by (simp_all add: exampleBase_def exampleConverter_def)

lemma example_parser:
  "exampleParser ''bigint'' = Inr (ScalarType BIGINT)"
  "exampleParser ''boolean'' = Inr (ScalarType BOOLEAN)"
  by (simp_all add: exampleParser_def)

lemma example_leaf: "toVeloxQueryPlan exampleBase taskId (OtherNode ()) = Inr leafNode"
  by (simp add: example_simps)

subsection \<open>The offset/limit rewrite\<close>

text \<open>
  C1. On the seven-node chain of OFFSET/LIMIT (an identity projection that drops the
  row-number column, over a round-robin local exchange with one source, over a limit of
  count \<open>m\<close>, over a local exchange with one source, over a filter whose predicate is
  row number greater than a constant of type bigint, over a local exchange with one
  source, over a row-number node) the translation of the projection is a projection over
  a limit with the constant as offset and \<open>m\<close> as count, over the translation of the source
  of the row-number node (the projections and that source being translatable).
\<close>

theorem C1_offset_limit:
  assumes "list_all (\<lambda>entry. equal (snd entry) (fst entry)) asg"
    and "\<not> list_ex (\<lambda>entry. equal (snd entry) rowNumberVar) asg"
    and "isRoundRobinPartition type1 scheme1"
    and "signatureKind sig = SCALAR"
    and "signatureName sig = ''presto.default.$operator$greater_than''"
    and "toVeloxExpr (exprConverter c) literal =
           Inr (ConstantTypedExpr (ScalarType BIGINT) (BigintVariant offset))"
    and "getProjections (exprConverter c) asg = Inr projections"
    and "toVeloxQueryPlan c taskId rowNumberSource = Inr lowered"
  shows "toVeloxQueryPlan c taskId
           (ProjectNode nid
              (ExchangeNode id1 type1 LOCAL scheme1
                 [LimitNode limitId
                    (ExchangeNode id2 type2 LOCAL scheme2
                       [FilterNode filterId
                          (ExchangeNode id3 type3 LOCAL scheme3
                             [RowNumberNode rowNumberId rowNumberSource rowNumberVar] ins3 os3)
                          (CallExpression displayName (BuiltInFunctionHandle sig) returnType
                             [VariableReference rowNumberVar, literal])]
                       ins2 os2)
                    m st]
                 ins1 os1)
              asg) =
         Inr (CoreProjectNode nid (getNames asg) projections
                (CoreLimitNode limitId offset m (st = PARTIAL) lowered))"
  using assms
  by (simp add: tryConvertOffsetLimit_def isGreaterThan_def isFunctionCall_def at_def equal_def
      isBigint_def)

theorem C1_offset_limit_witness:
  "toVeloxQueryPlan exampleBase exampleTask (offsetLimitPlan True False True five) =
     Inr (CoreProjectNode ''project'' [''a''] [FieldAccessTypedExpr (ScalarType BIGINT) ''a'']
            (CoreLimitNode ''limit'' 5 10 False leafNode))"
proof -
  let ?asg = "[(columnA, VariableReference columnA)] :: (VariableReferenceExpression \<times> variant RowExpression) list"
  let ?sig = "\<lparr>signatureName = ''presto.default.$operator$greater_than'', signatureKind = SCALAR\<rparr>"
  let ?rr = "exampleScheme (SystemPartitioningHandle FIXED ROUND_ROBIN) None"
  have a: "list_all (\<lambda>entry. equal (snd entry) (fst entry)) ?asg"
    by (simp add: equal_def)
  have b: "\<not> list_ex (\<lambda>entry. equal (snd entry) rowNumberColumn) ?asg"
    by (simp add: equal_def columnA_def rowNumberColumn_def)
  have r: "isRoundRobinPartition REPARTITION ?rr"
    by (simp add: isRoundRobinPartition_def isFixedPartition_def exampleScheme_def)
  have l: "toVeloxExpr (exprConverter exampleBase) five =
             Inr (ConstantTypedExpr (ScalarType BIGINT) (BigintVariant 5))"
    by (simp add: example_simps five_def example_parser)
  have p: "getProjections (exprConverter exampleBase) ?asg =
             Inr [FieldAccessTypedExpr (ScalarType BIGINT) ''a'']"
    by (simp add: getProjections_def example_simps exampleVariable_def columnA_def example_parser)
  note C1_offset_limit [OF a b r _ _ l p example_leaf, of ?sig exampleTask]
  then show ?thesis
    by (simp add: offsetLimitPlan_def exchangeOver_def builtIn_def getNames_def columnA_def)
qed

text \<open>
  C2, as the code has it. Round-robin partitioning is asked of the exchange directly under
  the projection only. The exchanges under the limit and under the filter only have to
  be local with one source: when the exchange between the limit and the filter gathers,
  the plan is still rewritten.
\<close>

theorem C2_exchange_counterexample:
  "roundRobinExchange (source (hd (sources (source (offsetLimitPlan True False False five))))) = False \<and>
   tryConvertOffsetLimit exampleConverter (toVeloxQueryPlan exampleBase exampleTask)
     (offsetLimitPlan True False False five) =
     Inr (Some (CoreProjectNode ''project'' [''a''] [FieldAccessTypedExpr (ScalarType BIGINT) ''a'']
                  (CoreLimitNode ''limit'' 5 10 False leafNode)))"
  by (simp add: offsetLimitPlan_def exchangeOver_def builtIn_def tryConvertOffsetLimit_def
      isRoundRobinPartition_def isFixedPartition_def exampleScheme_def equal_def
      isGreaterThan_def isFunctionCall_def at_def five_def example_simps example_parser
      isBigint_def columnA_def rowNumberColumn_def getProjections_def getNames_def
      exampleVariable_def)

text \<open>
  C2, amended. When the projection is not an identity projection, or the node under it
  is not a local exchange with one source, or that exchange is not round-robin, or (on
  the chain) the predicate of the filter is not row number greater than a bigint
  constant, the rewrite finds no match and the projection is lowered the generic way.
\<close>

theorem C2_amended:
  assumes "\<not> list_all (\<lambda>entry. equal (snd entry) (fst entry)) asg \<or>
           isLocalSingleSourceExchange src = None \<or>
           \<not> roundRobinExchange src \<or>
           src = ExchangeNode id1 type1 scope1 scheme1
                   [LimitNode limitId
                      (ExchangeNode id2 type2 scope2 scheme2
                         [FilterNode filterId
                            (ExchangeNode id3 type3 scope3 scheme3
                               [RowNumberNode rowNumberId rowNumberSource rowNumberVar] ins3 os3)
                            pred]
                         ins2 os2)
                      m st]
                   ins1 os1 \<and>
           notRowNumberComparison (exprConverter c) pred rowNumberVar"
  shows "tryConvertOffsetLimit (exprConverter c) (toVeloxQueryPlan c taskId) (ProjectNode nid src asg) =
           Inr None \<and>
         toVeloxQueryPlan c taskId (ProjectNode nid src asg) =
           (case getProjections (exprConverter c) asg of
              Inl e \<Rightarrow> Inl e
            | Inr projections \<Rightarrow>
                (case toVeloxQueryPlan c taskId src of
                   Inl e \<Rightarrow> Inl e
                 | Inr s \<Rightarrow> Inr (CoreProjectNode nid (getNames asg) projections s)))"
proof -
  have "tryConvertOffsetLimit (exprConverter c) (toVeloxQueryPlan c taskId) (ProjectNode nid src asg) =
          Inr None"
    using assms
  proof (elim disjE conjE)
    assume "\<not> list_all (\<lambda>entry. equal (snd entry) (fst entry)) asg"
    then show ?thesis by (simp add: tryConvertOffsetLimit_def)
  next
    assume "isLocalSingleSourceExchange src = None"
    then show ?thesis by (simp add: tryConvertOffsetLimit_def split: option.splits)
  next
    assume "\<not> roundRobinExchange src"
    moreover have "e = src" if "isLocalSingleSourceExchange src = Some e" for e
      using that by (cases src) (auto split: if_splits)
    ultimately show ?thesis by (auto simp: tryConvertOffsetLimit_def split: option.splits)
  next
    assume chain: "src = ExchangeNode id1 type1 scope1 scheme1
                   [LimitNode limitId
                      (ExchangeNode id2 type2 scope2 scheme2
                         [FilterNode filterId
                            (ExchangeNode id3 type3 scope3 scheme3
                               [RowNumberNode rowNumberId rowNumberSource rowNumberVar] ins3 os3)
                            pred]
                         ins2 os2)
                      m st]
                   ins1 os1"
      and pred: "notRowNumberComparison (exprConverter c) pred rowNumberVar"
    show ?thesis
    proof (cases "isGreaterThan pred")
      case None
      then show ?thesis
        by (simp add: tryConvertOffsetLimit_def chain split: option.splits)
    next
      case (Some gt)
      with pred obtain argument0 argument1 where args: "arguments gt = [argument0, argument1]"
        by (auto simp: notRowNumberComparison_def split: list.splits)
      show ?thesis
      proof (cases "equal argument0 rowNumberVar")
        case False
        with Some args show ?thesis
          by (simp add: tryConvertOffsetLimit_def chain at_def split: option.splits)
      next
        case True
        with pred Some args obtain offsetExpr where
          conv: "toVeloxExpr (exprConverter c) argument1 = Inr offsetExpr"
          and notBigint: "\<And>t v. offsetExpr = ConstantTypedExpr t v \<Longrightarrow> \<not> isBigint t"
          by (auto simp: notRowNumberComparison_def split: sum.splits TypedExpr.splits)
        with Some args True show ?thesis
          by (cases offsetExpr)
            (simp_all add: tryConvertOffsetLimit_def chain at_def split: option.splits)
      qed
    qed
  qed
  then show ?thesis by simp
qed

theorem C2_amended_witness:
  "tryConvertOffsetLimit exampleConverter (toVeloxQueryPlan exampleBase exampleTask)
     (offsetLimitPlan False True True five) = Inr None \<and>
   toVeloxQueryPlan exampleBase exampleTask (offsetLimitPlan False True True five) =
     Inl (UnsupportedConstruct ''Unknown plan node type {}'')"
proof -
  let ?src = "exchangeOver False
          (LimitNode ''limit''
             (exchangeOver True
                (FilterNode ''filter''
                   (exchangeOver True (RowNumberNode ''rowNumber'' (OtherNode ()) rowNumberColumn))
                   (builtIn ''presto.default.$operator$greater_than''
                      [VariableReference rowNumberColumn, five])))
             10 FINAL)"
  have n: "\<not> roundRobinExchange ?src"
    by (simp add: exchangeOver_def isRoundRobinPartition_def isFixedPartition_def)
  have lowered: "toVeloxQueryPlan exampleBase exampleTask ?src =
                   Inl (UnsupportedConstruct ''Unknown plan node type {}'')"
    by (simp add: exchangeOver_def builtIn_def example_simps example_parser)
  note w = C2_amended [where asg = "[(columnA, VariableReference columnA)]" and src = ?src
      and c = exampleBase and taskId = exampleTask and nid = "''project''",
      OF disjI2 [OF disjI2 [OF disjI1 [OF n]]]]
  have plan: "offsetLimitPlan False True True five =
                ProjectNode ''project'' ?src [(columnA, VariableReference columnA)]"
    by (simp add: offsetLimitPlan_def)
  have base: "exprConverter exampleBase = exampleConverter"
    by (simp add: example_simps)
  have projections: "getProjections exampleConverter [(columnA, VariableReference columnA)] =
                       Inr [FieldAccessTypedExpr (ScalarType BIGINT) ''a'']"
    by (simp add: getProjections_def example_simps exampleVariable_def columnA_def example_parser)
  from w [unfolded base lowered projections] show ?thesis
    unfolding plan by (simp only: sum.case)
qed

subsection \<open>A filter over a semi join\<close>

lemma semiJoinType_cases:
  assumes "notHasOperand pred"
  shows "semiJoinType pred flag =
           (if equal pred flag then Inr (Some kLeftSemiFilter)
            else if isNotOf pred flag then Inr (Some kAnti) else Inr None)"
proof (cases "isNot pred")
  case None
  then show ?thesis by (simp add: semiJoinType_def isNotOf_def)
next
  case (Some notCall)
  with assms obtain a rest where "arguments notCall = a # rest"
    by (cases "arguments notCall") (simp_all add: notHasOperand_def)
  with Some show ?thesis by (simp add: semiJoinType_def isNotOf_def at_def)
qed

text \<open>
  C3, as the code has it. When the predicate is the flag of the semi join, the
  translation is not a hash join: it is a projection over the left-semi-filter hash
  join. The join's output has no flag column, but the projection gives the flag back as
  a constant column, so the output of the translation does carry the flag.
\<close>

theorem C3_flag_counterexample:
  "toVeloxQueryPlan exampleBase exampleTask (semiJoinFilter (VariableReference flagColumn)) =
     Inr (CoreProjectNode ''filter'' [''a'', ''flag'']
            [FieldAccessTypedExpr (ScalarType BIGINT) ''a'',
             ConstantTypedExpr (ScalarType BOOLEAN) (BooleanVariant True)]
            (CoreHashJoinNode ''semiJoin'' kLeftSemiFilter False
               [FieldAccessTypedExpr (ScalarType BIGINT) ''a'']
               [FieldAccessTypedExpr (ScalarType BIGINT) ''a''] None leafNode leafNode
               (RowType [''a''] [ScalarType BIGINT]))) \<and>
   isHashJoin
     (toVeloxQueryPlan exampleBase exampleTask (semiJoinFilter (VariableReference flagColumn))) =
     False \<and>
   map_sum id (\<lambda>node. names (outputType node))
     (toVeloxQueryPlan exampleBase exampleTask (semiJoinFilter (VariableReference flagColumn))) =
     Inr [''a'', ''flag'']"
  by (simp add: semiJoinFilter_def semiJoinType_def semiJoin_def equal_def flagColumn_def
      columnA_def leafNode_def example_simps exampleVariable_def example_parser Let_def)

text \<open>
  C3, amended. A filter over a semi join, both sides and both keys being translatable
  (and a call of NOT carrying an argument): when the predicate is the flag of the semi
  join, the result is a projection over a left-semi-filter hash join; when the predicate
  is NOT of the flag, a projection over an anti join. In both cases the join's output is
  the probe side's, without the flag, and the projection passes the probe side's columns
  on and gives the flag back as the constant true (false for the anti join). For every
  other predicate the result is the filter with that predicate over a left-semi-project
  hash join whose output is the probe side's columns followed by the boolean flag.
\<close>

theorem C3_amended:
  assumes "toVeloxExprVariable (exprConverter c) sourceJoinVariable = Inr leftKey"
    and "toVeloxExprVariable (exprConverter c) filteringSourceJoinVariable = Inr rightKey"
    and "toVeloxQueryPlan c taskId probe = Inr left"
    and "toVeloxQueryPlan c taskId build = Inr right"
    and "notHasOperand pred"
  shows "toVeloxQueryPlan c taskId
           (FilterNode nid
              (SemiJoinNode semiJoinId probe build sourceJoinVariable filteringSourceJoinVariable flag)
              pred) =
         (if equal pred flag then
            Inr (CoreProjectNode nid (names (outputType left) @ [varName flag])
                   (probeFields (outputType left) @
                    [ConstantTypedExpr (ScalarType BOOLEAN) (BooleanVariant True)])
                   (CoreHashJoinNode semiJoinId kLeftSemiFilter False [leftKey] [rightKey] None
                      left right (outputType left)))
          else if isNotOf pred flag then
            Inr (CoreProjectNode nid (names (outputType left) @ [varName flag])
                   (probeFields (outputType left) @
                    [ConstantTypedExpr (ScalarType BOOLEAN) (BooleanVariant False)])
                   (CoreHashJoinNode semiJoinId kAnti True [leftKey] [rightKey] None
                      left right (outputType left)))
          else
            (case toVeloxExpr (exprConverter c) pred of
               Inl e \<Rightarrow> Inl e
             | Inr p \<Rightarrow>
                 Inr (CoreFilterNode nid p
                        (CoreHashJoinNode semiJoinId kLeftSemiProject False [leftKey] [rightKey] None
                           left right
                           (RowType (names (outputType left) @ [varName flag])
                              (children (outputType left) @ [ScalarType BOOLEAN]))))))"
  using assms(1-4)
  by (simp add: semiJoinType_cases [OF assms(5)] semiJoin_def probeFields_def Let_def)

theorem C3_amended_witness:
  "toVeloxQueryPlan exampleBase exampleTask (semiJoinFilter (VariableReference flagColumn)) =
     Inr (CoreProjectNode ''filter'' [''a'', ''flag'']
            [FieldAccessTypedExpr (ScalarType BIGINT) ''a'',
             ConstantTypedExpr (ScalarType BOOLEAN) (BooleanVariant True)]
            (CoreHashJoinNode ''semiJoin'' kLeftSemiFilter False
               [FieldAccessTypedExpr (ScalarType BIGINT) ''a'']
               [FieldAccessTypedExpr (ScalarType BIGINT) ''a''] None leafNode leafNode
               (RowType [''a''] [ScalarType BIGINT]))) \<and>
   toVeloxQueryPlan exampleBase exampleTask
     (semiJoinFilter (builtIn ''presto.default.not'' [VariableReference flagColumn])) =
     Inr (CoreProjectNode ''filter'' [''a'', ''flag'']
            [FieldAccessTypedExpr (ScalarType BIGINT) ''a'',
             ConstantTypedExpr (ScalarType BOOLEAN) (BooleanVariant False)]
            (CoreHashJoinNode ''semiJoin'' kAnti True
               [FieldAccessTypedExpr (ScalarType BIGINT) ''a'']
               [FieldAccessTypedExpr (ScalarType BIGINT) ''a''] None leafNode leafNode
               (RowType [''a''] [ScalarType BIGINT]))) \<and>
   toVeloxQueryPlan exampleBase exampleTask
     (semiJoinFilter (builtIn ''presto.default.or''
        [VariableReference flagColumn, VariableReference flagColumn])) =
     Inr (CoreFilterNode ''filter'' (CallTypedExpr (ScalarType BOOLEAN) [] ''presto.default.or'')
            (CoreHashJoinNode ''semiJoin'' kLeftSemiProject False
               [FieldAccessTypedExpr (ScalarType BIGINT) ''a'']
               [FieldAccessTypedExpr (ScalarType BIGINT) ''a''] None leafNode leafNode
               (RowType [''a'', ''flag''] [ScalarType BIGINT, ScalarType BOOLEAN])))"
proof -
  have k: "toVeloxExprVariable (exprConverter exampleBase) columnA =
             Inr (FieldAccessTypedExpr (ScalarType BIGINT) ''a'')"
    by (simp add: example_simps exampleVariable_def columnA_def example_parser)
  have u: "notHasOperand (VariableReference flagColumn)"
    "notHasOperand (builtIn ''presto.default.not'' [VariableReference flagColumn])"
    "notHasOperand (builtIn ''presto.default.or'' [VariableReference flagColumn, VariableReference flagColumn])"
    by (simp_all add: notHasOperand_def isNot_def isFunctionCall_def builtIn_def)
  note w = C3_amended [OF k k example_leaf example_leaf, of _ exampleTask "''filter''" "''semiJoin''" flagColumn]
  show ?thesis
    using w [OF u(1)] w [OF u(2)] w [OF u(3)]
    by (simp add: semiJoinFilter_def equal_def isNotOf_def isNot_def isFunctionCall_def builtIn_def
        flagColumn_def leafNode_def probeFields_def example_simps example_parser)
qed

subsection \<open>The root of a fragment\<close>

lemma int32_zero_iff: "sint (w :: int32) = 0 \<longleftrightarrow> w = 0"
  using word_eq_iff_signed [where ?'a = int, of w 0] by simp

text \<open>
  C4. A fragment whose partitioning scheme resolves to one partition is assembled with a
  single partitioned output named \<^verbatim>\<open>root\<close> over the translation of its root, whichever
  the partitioning is (system single, hash or round-robin, or hive bucketing), the
  strategy, the keys, the root and the output layout being translatable.
\<close>

theorem C4_single_partition:
  assumes "toStrategy (stageExecutionStrategy (stageExecutionDescriptor fragment)) = Inr strategy"
    and "strategy = kUngrouped \<or> groupedExecutionScanNodes (stageExecutionDescriptor fragment) \<noteq> []"
    and "toTypedExprs (partitioningArguments (partitioningScheme fragment)) (exprConverter c) = Inr keys"
    and "toVeloxQueryPlan c taskId (root fragment) = Inr sourceNode"
    and "partitionChannels keys (outputType sourceNode) = Inr (keyChannels, constValues)"
    and "toRowType (exprConverter c) (outputLayout (partitioningScheme fragment)) [] = Inr outType"
    and "resolvedPartitionCount (partitioningScheme fragment) = Some 1"
  shows "toVeloxQueryPlan_Fragment c fragment taskId =
           Inr \<lparr>planNode = single ''root'' outType sourceNode,
                executionStrategy = strategy,
                numSplitGroups = totalLifespans (stageExecutionDescriptor fragment),
                groupedExecutionLeafNodeIds =
                  remdups (groupedExecutionScanNodes (stageExecutionDescriptor fragment))\<rparr>"
proof -
  let ?scheme = "partitioningScheme fragment"
  let ?result = "Inr \<lparr>planNode = single ''root'' outType sourceNode,
                executionStrategy = strategy,
                numSplitGroups = totalLifespans (stageExecutionDescriptor fragment),
                groupedExecutionLeafNodeIds =
                  remdups (groupedExecutionScanNodes (stageExecutionDescriptor fragment))\<rparr>"
  have grouped: "\<not> (strategy = kGrouped \<and>
                    remdups (groupedExecutionScanNodes (stageExecutionDescriptor fragment)) = [])"
    using assms(2) by auto
  have emit: "(case partitioningHandle ?scheme of
        SystemPartitioningHandle partitioning fn \<Rightarrow>
          (case partitioning of
             SINGLE \<Rightarrow>
               if fn \<noteq> FunctionSINGLE then
                 Inl (InvariantViolation ''Unsupported partitioning function: {}'')
               else ?result
           | FIXED \<Rightarrow>
               (case fn of
                  ROUND_ROBIN \<Rightarrow>
                    (case bucketToPartition ?scheme of
                       None \<Rightarrow> Inl (UndefinedBehavior ''dereference of a null bucketToPartition'')
                     | Some buckets \<Rightarrow>
                         if length buckets = 1 then ?result
                         else X1 buckets)
                | HASH \<Rightarrow>
                    (case bucketToPartition ?scheme of
                       None \<Rightarrow> Inl (UndefinedBehavior ''dereference of a null bucketToPartition'')
                     | Some buckets \<Rightarrow>
                         if length buckets = 1 then ?result
                         else X2 buckets)
                | BROADCAST \<Rightarrow> X3
                | _ \<Rightarrow> Inl (UnsupportedConstruct ''Unsupported partitioning function: {}''))
           | _ \<Rightarrow> Inl (InvariantViolation ''Unsupported kind of SystemPartitioning''))
      | HivePartitioningHandle bucketCount bucketFunctionType \<Rightarrow>
          (case bucketToPartition ?scheme of
             None \<Rightarrow> Inl (UndefinedBehavior ''dereference of a null bucketToPartition'')
           | Some buckets \<Rightarrow>
               if buckets = [] then
                 Inl (UndefinedBehavior ''max_element of an empty bucketToPartition'')
               else
                 if maxElement buckets + 1 = 1 then ?result
                 else X4 bucketCount bucketFunctionType buckets)
      | OtherPartitioningHandle tag \<Rightarrow>
          Inl (UnsupportedConstruct ''Unsupported partitioning handle: {}'')) = ?result"
    for X1 X2 X3 X4
    using assms(7)
    by (auto simp: resolvedPartitionCount_def int32_zero_iff
        split: ConnectorPartitioningHandle.splits SystemPartitioning.splits
          SystemPartitionFunction.splits option.splits if_splits)
  have notOutput: "(case root fragment of OutputNode nid src vs \<Rightarrow> A nid src vs | _ \<Rightarrow> B) = B"
    for A :: "string \<Rightarrow> ('a, 'b) PlanNode \<Rightarrow> VariableReferenceExpression list \<Rightarrow> error + CorePlanFragment"
      and B
    using assms(4) by (cases "root fragment") simp_all
  show ?thesis
    unfolding toVeloxQueryPlan_Fragment_def
    by (simp only: Let_def assms(1,3,4,5,6) sum.case prod.case if_not_P [OF grouped] notOutput emit)
qed

theorem C4_single_partition_witness:
  "toVeloxQueryPlan_Fragment exampleBase
     (exampleFragment (HivePartitioningHandle 3 PRESTO_NATIVE) [0, 0, 0]) exampleTask =
     Inr singleFragment \<and>
   toVeloxQueryPlan_Fragment exampleBase
     (exampleFragment (SystemPartitioningHandle FIXED HASH) [7]) exampleTask = Inr singleFragment \<and>
   toVeloxQueryPlan_Fragment exampleBase
     (exampleFragment (SystemPartitioningHandle FIXED ROUND_ROBIN) [7]) exampleTask =
     Inr singleFragment"
proof -
  have w: "toVeloxQueryPlan_Fragment exampleBase (exampleFragment handle buckets) exampleTask =
             Inr \<lparr>planNode = single ''root'' (RowType [''a''] [ScalarType BIGINT]) leafNode,
                  executionStrategy = kUngrouped,
                  numSplitGroups =
                    totalLifespans (stageExecutionDescriptor (exampleFragment handle buckets)),
                  groupedExecutionLeafNodeIds =
                    remdups (groupedExecutionScanNodes
                      (stageExecutionDescriptor (exampleFragment handle buckets)))\<rparr>"
    if "resolvedPartitionCount (partitioningScheme (exampleFragment handle buckets)) = Some 1"
    for handle buckets
    by (rule C4_single_partition [where keys = "[]" and keyChannels = "[]" and constValues = "[]", OF _ _ _ _ _ _ that])
      (simp_all add: exampleFragment_def toStrategy_def exampleScheme_def toTypedExprs_def
        example_simps toRowType_def stringToType_def columnA_def example_parser)
  have "resolvedPartitionCount
          (partitioningScheme (exampleFragment (HivePartitioningHandle 3 PRESTO_NATIVE) [0, 0, 0])) = Some 1"
    "resolvedPartitionCount
          (partitioningScheme (exampleFragment (SystemPartitioningHandle FIXED HASH) [7])) = Some 1"
    "resolvedPartitionCount
          (partitioningScheme (exampleFragment (SystemPartitioningHandle FIXED ROUND_ROBIN) [7])) = Some 1"
    by (simp_all add: resolvedPartitionCount_def exampleFragment_def exampleScheme_def maxElement_def)
  from this [THEN w] show ?thesis
    by (simp add: singleFragment_def exampleFragment_def)
qed

subsection \<open>Table handles\<close>

text \<open>
  C7, as the code has it. A hive layout with filter pushdown disabled is refused by a
  check (\<^verbatim>\<open>VELOX_CHECK\<close>), the kind of failure of a broken invariant, and not by
  \<^verbatim>\<open>VELOX_UNSUPPORTED\<close>: the failure is not an \<open>UnsupportedConstruct\<close>.
\<close>

theorem C7_pushdown_counterexample:
  "pushdownFilterEnabled
     (case connectorTableLayout unpushedTable of HiveTableLayout hiveLayout \<Rightarrow> hiveLayout) = False \<and>
   toConnectorTableHandle unpushedTable exampleConverter [] =
     Inl (InvariantViolation ''Table scan with filter pushdown disabled is not supported'') \<and>
   isUnsupportedConstruct (toConnectorTableHandle unpushedTable exampleConverter []) = False"
  by (simp add: unpushedTable_def toConnectorTableHandle_def)

text \<open>
  C7, amended. For every table handle whose layout is a hive layout with filter pushdown
  disabled the translation fails with the \<open>InvariantViolation\<close> of the pushdown check,
  whatever the partition columns collected so far; no table handle is returned.
\<close>

theorem C7_amended:
  assumes "connectorTableLayout tableHandle = HiveTableLayout hiveLayout"
    and "\<not> pushdownFilterEnabled hiveLayout"
  shows "toConnectorTableHandle tableHandle x partitionColumns0 =
           Inl (InvariantViolation ''Table scan with filter pushdown disabled is not supported'')"
  using assms by (simp add: toConnectorTableHandle_def)

theorem C7_amended_witness:
  "toConnectorTableHandle unpushedTable exampleConverter [] =
     Inl (InvariantViolation ''Table scan with filter pushdown disabled is not supported'')"
  by (rule C7_amended [where hiveLayout =
        "\<lparr>pushdownFilterEnabled = False, partitionColumns = [], domains = Some [],
          remainingPredicate = ConstantExpression (BooleanVariant True) ''boolean''\<rparr>"])
    (simp_all add: unpushedTable_def)

subsection \<open>The prefix of unique ids\<close>

lemma low_bits_mask: "(push_bit n 1 - 1 :: int32) = mask n"
  by (simp add: mask_eq_exp_minus_1 push_bit_eq_mult)

lemma taskUniqueId_concat:
  "taskUniqueId s t = push_bit 14 (take_bit 10 s) + take_bit 14 t"
proof -
  have "push_bit 14 (take_bit 10 s) + take_bit 14 t = push_bit 14 (take_bit 10 s) OR take_bit 14 t"
    by (rule disjunctive_add_eq_or) (auto simp add: bit_eq_iff bit_simps)
  then show ?thesis
    by (simp only: taskUniqueId_def low_bits_mask take_bit_eq_mask)
qed

lemma uint_taskUniqueId:
  "uint (taskUniqueId s t) = (uint s mod 2 ^ 10) * 2 ^ 14 + (uint t mod 2 ^ 14)"
proof -
  have a: "uint (take_bit 10 s) = uint s mod 2 ^ 10"
    by (subst unsigned_take_bit_eq) (rule take_bit_eq_mod)
  have b: "uint (take_bit 14 t) = uint t mod 2 ^ 14"
    by (subst unsigned_take_bit_eq) (rule take_bit_eq_mod)
  have a1: "uint s mod 2 ^ 10 < 2 ^ 10" "0 \<le> uint s mod 2 ^ 10" by simp_all
  have b1: "uint t mod 2 ^ 14 < 2 ^ 14" "0 \<le> uint t mod 2 ^ 14" by simp_all
  have "uint (push_bit 14 (take_bit 10 s)) = take_bit 32 (push_bit 14 (uint (take_bit 10 s)))"
    by (simp add: unsigned_push_bit_eq)
  also have "\<dots> = (uint s mod 2 ^ 10) * 2 ^ 14"
    unfolding a using a1 by (simp add: push_bit_eq_mult take_bit_eq_mod)
  finally have c: "uint (push_bit 14 (take_bit 10 s)) = (uint s mod 2 ^ 10) * 2 ^ 14" .
  have "uint (push_bit 14 (take_bit 10 s) + take_bit 14 t)
      = ((uint s mod 2 ^ 10) * 2 ^ 14 + uint t mod 2 ^ 14) mod 2 ^ 32"
    by (simp only: uint_word_ariths a b c) simp
  also have "\<dots> = (uint s mod 2 ^ 10) * 2 ^ 14 + uint t mod 2 ^ 14"
    using a1 b1 by simp
  finally show ?thesis
    unfolding taskUniqueId_concat .
qed

lemma sint_mod_uint: "sint (w :: int32) mod 2 ^ n = uint w mod 2 ^ n" if "n \<le> 31"
proof -
  have "take_bit n (sint w) = take_bit n (uint w)"
    using that by (simp add: sint_uint take_bit_signed_take_bit)
  then show ?thesis by (simp add: take_bit_eq_mod)
qed

lemma sint_small: "uint (w :: int32) < 2 ^ 31 \<Longrightarrow> sint w = uint w"
proof -
  assume "uint w < 2 ^ 31"
  moreover have "- (2 ^ 31) \<le> uint w"
    by (rule order_trans [of _ 0]) simp_all
  ultimately have "signed_take_bit 31 (uint w) = uint w"
    by (rule signed_take_bit_int_eq_self [rotated])
  then show ?thesis by (simp add: sint_uint)
qed

lemma sint_taskUniqueId:
  "sint (taskUniqueId s t) = (sint s mod 2 ^ 10) * 2 ^ 14 + (sint t mod 2 ^ 14)"
  "0 \<le> sint (taskUniqueId s t)" "sint (taskUniqueId s t) < 2 ^ 24"
proof -
  have a1: "uint s mod 2 ^ 10 < 2 ^ 10" "0 \<le> uint s mod 2 ^ 10" by simp_all
  have b1: "uint t mod 2 ^ 14 < 2 ^ 14" "0 \<le> uint t mod 2 ^ 14" by simp_all
  have u: "uint (taskUniqueId s t) < 2 ^ 24" "0 \<le> uint (taskUniqueId s t)"
    unfolding uint_taskUniqueId using a1 b1 by simp_all
  then have e: "sint (taskUniqueId s t) = uint (taskUniqueId s t)"
    by (intro sint_small) simp
  have m: "sint s mod 2 ^ 10 = uint s mod 2 ^ 10" "sint t mod 2 ^ 14 = uint t mod 2 ^ 14"
    by (rule sint_mod_uint, simp)+
  show "sint (taskUniqueId s t) = (sint s mod 2 ^ 10) * 2 ^ 14 + (sint t mod 2 ^ 14)"
    by (simp only: e m uint_taskUniqueId)
  show "0 \<le> sint (taskUniqueId s t)" "sint (taskUniqueId s t) < 2 ^ 24"
    using u by (simp_all only: e)
qed

text \<open>
  C10. The translation of an AssignUniqueId node, for a task of stage \<open>s\<close> and number \<open>t\<close>,
  carries the prefix \<open>(s mod 2^10) * 2^14 + (t mod 2^14)\<close>: the low 10 bits of the stage
  followed by the low 14 bits of the task number, a number of 24 bits.
\<close>

theorem C10_unique_id_prefix:
  assumes "toVeloxQueryPlan c taskId src = Inr s"
  shows "\<exists>u. toVeloxQueryPlan c taskId (AssignUniqueId nid src idVariable) =
               Inr (CoreAssignUniqueIdNode nid (varName idVariable) u s) \<and>
             sint u = (sint (stageId taskId) mod 2 ^ 10) * 2 ^ 14 + (sint (taskNumber taskId) mod 2 ^ 14) \<and>
             0 \<le> sint u \<and> sint u < 2 ^ 24"
  using assms sint_taskUniqueId [of "stageId taskId" "taskNumber taskId"] by simp

theorem C10_unique_id_prefix_witness:
  "toVeloxQueryPlan exampleBase exampleTask (AssignUniqueId ''assign'' (OtherNode ()) columnA) =
     Inr (CoreAssignUniqueIdNode ''assign'' ''a'' 49157 leafNode)"
proof -
  from C10_unique_id_prefix [OF example_leaf, of exampleTask "''assign''" columnA]
  obtain u where r: "toVeloxQueryPlan exampleBase exampleTask
                       (AssignUniqueId ''assign'' (OtherNode ()) columnA) =
                     Inr (CoreAssignUniqueIdNode ''assign'' (varName columnA) u leafNode)"
    and u: "sint u = (sint (stageId exampleTask) mod 2 ^ 10) * 2 ^ 14 +
                     (sint (taskNumber exampleTask) mod 2 ^ 14)"
    by blast
  from u have "sint u = sint (49157 :: int32)"
    by (simp add: exampleTask_def)
  then have "u = 49157"
    by (simp only: word_eq_iff_signed [where ?'a = int, symmetric])
  with r show ?thesis
    by (simp add: columnA_def)
qed

end
